(* ===== verification/Prelude.thy ===== *)
theory Prelude
  imports Main "HOL-Library.Word" "HOL-Library.Sublist"
begin

text \<open>
  Shared vocabulary of the development: the machine integer widths of the Rust
  code, the few Rust standard-library string operations the compiler calls
  (\<open>char::is_ascii_digit\<close>, \<open>str::replace\<close> with a character pattern,
  \<open>usize::to_string\<close>), the collection \<open>buffer_simps\<close> that carries the
  rewriting of output buffers, and generic lemmas on lists and words that the
  component theories share.
\<close>

section \<open>Machine integers\<close>

type_synonym u32 = "32 word"
type_synonym usize = "64 word"

named_theorems buffer_simps "equations of the operations that write the output buffer"

section \<open>Rust standard-library string operations\<close>

text \<open>\<open>char::is_ascii_digit\<close>: the characters \<open>'0'\<close> to \<open>'9'\<close>.\<close>

definition is_ascii_digit :: "char \<Rightarrow> bool" where
  "is_ascii_digit c \<longleftrightarrow> 48 \<le> (of_char c :: nat) \<and> (of_char c :: nat) \<le> 57"

text \<open>\<open>s.replace(c, r)\<close> for a character pattern \<open>c\<close>: every occurrence of
  \<open>c\<close> is replaced by the string \<open>r\<close>.\<close>

definition str_replace_char :: "char \<Rightarrow> string \<Rightarrow> string \<Rightarrow> string" where
  "str_replace_char c r s = concat (map (\<lambda>x. if x = c then r else [x]) s)"

text \<open>Decimal rendering of an unsigned integer (\<open>to_string\<close>), and its
  reading back: most significant digit first, no sign, no leading zeros.\<close>

definition digit_char :: "nat \<Rightarrow> char" where
  "digit_char d = char_of (48 + d)"

fun dec_string :: "nat \<Rightarrow> string" where
  "dec_string n =
     (if n < 10 then [digit_char n] else dec_string (n div 10) @ [digit_char (n mod 10)])"

declare dec_string.simps [simp del]

definition digit_value :: "char \<Rightarrow> nat" where
  "digit_value c = of_char c - 48"

definition parse_dec :: "string \<Rightarrow> nat" where
  "parse_dec s = foldl (\<lambda>n c. 10 * n + digit_value c) 0 s"

section \<open>Generic lemmas\<close>

lemma is_ascii_digit_digit_char [simp]:
  "d < 10 \<Longrightarrow> is_ascii_digit (digit_char d)"
  by (simp add: is_ascii_digit_def digit_char_def)

lemma digit_char_simps [simp]:
  "digit_char 0 = CHR ''0''" "digit_char 1 = CHR ''1''" "digit_char 2 = CHR ''2''"
  "digit_char 3 = CHR ''3''" "digit_char 4 = CHR ''4''" "digit_char 5 = CHR ''5''"
  "digit_char 6 = CHR ''6''" "digit_char 7 = CHR ''7''" "digit_char 8 = CHR ''8''"
  "digit_char 9 = CHR ''9''" "digit_char (Suc 0) = CHR ''1''"
  unfolding digit_char_def by code_simp+

lemma digit_value_digit_char [simp]:
  "d < 10 \<Longrightarrow> digit_value (digit_char d) = d"
  by (simp add: digit_value_def digit_char_def)

lemma dec_string_small [simp]:
  "n < 10 \<Longrightarrow> dec_string n = [digit_char n]"
  by (simp add: dec_string.simps)

lemma dec_string_big:
  "\<not> n < 10 \<Longrightarrow> dec_string n = dec_string (n div 10) @ [digit_char (n mod 10)]"
  by (subst dec_string.simps) simp

lemma dec_string_digits:
  "list_all is_ascii_digit (dec_string n)"
proof (induction n rule: dec_string.induct)
  case (1 n)
  then show ?case
    by (cases "n < 10") (simp_all add: dec_string_big)
qed

lemma dec_string_nonempty [simp]: "dec_string n \<noteq> []"
  by (cases "n < 10") (simp_all add: dec_string_big)

lemma parse_dec_snoc [simp]:
  "parse_dec (s @ [c]) = 10 * parse_dec s + digit_value c"
  by (simp add: parse_dec_def)

lemma parse_dec_dec_string: "parse_dec (dec_string n) = n"
proof (induction n rule: dec_string.induct)
  case (1 n)
  show ?case
  proof (cases "n < 10")
    case True
    then show ?thesis by (simp add: parse_dec_def)
  next
    case False
    with "1.IH" show ?thesis by (simp add: dec_string_big)
  qed
qed

lemma str_replace_char_Nil [simp]: "str_replace_char c r [] = []"
  by (simp add: str_replace_char_def)

lemma str_replace_char_Cons [simp]:
  "str_replace_char c r (x # xs) = (if x = c then r else [x]) @ str_replace_char c r xs"
  by (simp add: str_replace_char_def)

lemma str_replace_char_absent:
  "c \<notin> set r \<Longrightarrow> c \<notin> set (str_replace_char c r s)"
  by (induction s) auto

lemma str_replace_char_length:
  "length (str_replace_char c r s) + count_list s c = length s + count_list s c * length r"
  by (induction s) auto

lemma list_ex_concat_map: "list_ex P (concat (map f xs)) \<longleftrightarrow> list_ex (\<lambda>x. list_ex P (f x)) xs"
  by (induction xs) auto

lemma prefix_append_self [simp, intro]: "prefix xs (xs @ ys)"
  by simp

lemma word_suc_unat:
  "(w :: 'a::len word) \<noteq> - 1 \<Longrightarrow> unat (w + 1) = unat w + 1"
proof -
  assume "w \<noteq> - 1"
  then have "1 + w \<noteq> 0"
    by (metis add_eq_0_iff)
  then show ?thesis
    by (simp add: unatSuc add.commute)
qed

lemma unat_minus_one_word [simp]: "unat (- 1 :: 'a::len word) = 2 ^ LENGTH('a) - 1"
  by (simp add: unsigned_minus_1_eq_mask mask_eq_exp_minus_1)

lemma unat_bound_not_max: "unat (l :: 'a::len word) + 1 < 2 ^ LENGTH('a) \<Longrightarrow> l \<noteq> - 1"
  by auto

lemma word_plus_one_minus_one [simp]:
  "(w :: 'a::len word) + 1 - 1 = w"
  by simp

end
