(* ===== verification/Ast.thy ===== *)
theory Ast
  imports Prelude
begin

text \<open>
  The template AST that the transform and codegen passes read (the crate's
  \<open>ast\<close> module, \<open>crate::ast::*\<close>, which is not among the sources of this
  repository and is modelled from the data model of the specification, section 3).
  Expressions are simple or compound; props are static attributes or directives;
  elements, text, comments, interpolations and the synthesized \<open>v-if\<close> and
  \<open>v-for\<close> nodes are the children of a template. Elements nest through their
  child lists, so elements, children, if-branches and for-nodes form one mutual
  datatype. Arena allocation and lifetimes have no counterpart: a HOL value is
  immutable and owned by nobody.
\<close>

section \<open>Expressions\<close>

text \<open>\<open>SourceLocation\<close>: only its \<open>source\<close> text is read by the modelled code.\<close>

record source_location =
  loc_source :: string

text \<open>\<open>SimpleExpressionNode\<close>: source text, the static flag, its location.\<close>

record simple_expression =
  content :: string
  is_static :: bool
  sloc :: source_location

text \<open>The fragments of a \<open>CompoundExpressionNode\<close>: literal text or
  sub-expressions.\<close>

datatype compound_child =
    CString string
  | CSimple simple_expression

record compound_expression =
  cchildren :: "compound_child list"
  cloc :: source_location

datatype expression_node =
    Simple simple_expression
  | Compound compound_expression

section \<open>Props\<close>

record attribute_node =
  attr_name :: string
  attr_value :: "string option"

text \<open>\<open>DirectiveNode\<close>: \<open>name\<close>, optional \<open>arg\<close> and \<open>exp\<close>, \<open>modifiers\<close>.\<close>

record directive_node =
  dir_name :: string
  dir_arg :: "expression_node option"
  dir_exp :: "expression_node option"
  dir_modifiers :: "string list"

datatype prop_node =
    Attribute attribute_node
  | Directive directive_node

section \<open>Template nodes\<close>

text \<open>\<open>ElementType\<close>: native element, component, slot outlet, template. Among the
  child nodes, \<open>If\<close> and \<open>For\<close> are produced by the transform driver and
  \<open>Hoisted i\<close> by static hoisting: the use-site reference to the \<open>i\<close>-th hoisted
  constant of the compile unit (section 4.3).\<close>

datatype element_type = ElementTag | ComponentTag | SlotTag | TemplateTag

datatype element_node =
    ElementNode (tag: string) (tag_type: element_type) (props: "prop_node list")
      (children: "template_child list")
and template_child =
    Element element_node
  | Text string
  | Comment string
  | Interpolation expression_node
  | If "if_branch list"
  | For for_node
  | Hoisted nat
and if_branch =
    IfBranch (condition: "expression_node option") (branch_children: "template_child list")
and for_node =
    ForNode (source: expression_node) (value_alias: "expression_node option")
      (key_alias: "expression_node option") (object_index_alias: "expression_node option")
      (for_children: "template_child list")

text \<open>Constructors used by the examples: a directive without modifiers, a static
  or dynamic simple expression whose location source is its text.\<close>

definition simple_exp :: "string \<Rightarrow> bool \<Rightarrow> expression_node" where
  "simple_exp s st = Simple \<lparr>content = s, is_static = st, sloc = \<lparr>loc_source = s\<rparr>\<rparr>"

definition directive :: "string \<Rightarrow> expression_node option \<Rightarrow> expression_node option \<Rightarrow> prop_node" where
  "directive n a e = Directive \<lparr>dir_name = n, dir_arg = a, dir_exp = e, dir_modifiers = []\<rparr>"

end
