(* ===== verification/CodegenContext.thy ===== *)
theory CodegenContext
  imports Ast "HOL-Library.Multiset"
begin

text \<open>
  The code generation context of \<open>src/crates/vue_compiler_core/src/codegen/context.rs\<close>:
  the struct \<open>CodegenContext\<close> as a record and each of its methods as a function
  from the context to the new context (and the value the method returns).
  \<open>indent_level\<close> is a \<open>u32\<close> and \<open>cache_index\<close> a \<open>usize\<close>; both are kept at
  their width, with the wrap-around of a release build (a debug build panics instead).
  The runtime-helper enumeration, the default helper alias table and the codegen
  options come from modules outside the sources and follow the specification.
  The last section closes the methods into an operation datatype and an inductive
  reachability relation from \<open>new\<close>, with the context's well-formedness invariant.
\<close>

section \<open>Runtime helpers, options, binding metadata\<close>

datatype runtime_helper =
    Fragment | OpenBlock | CreateBlock | CreateElementBlock | CreateVNode
  | CreateElementVNode | CreateComment | CreateText | ToDisplayString
  | RenderList | RenderSlot | WithDirectives | VShow | ResolveComponent

text \<open>\<open>default_helper_alias\<close>: the local name under which generated code calls
  a helper (the underscore-prefixed import alias).\<close>

fun default_helper_alias :: "runtime_helper \<Rightarrow> string" where
  "default_helper_alias Fragment = ''_Fragment''"
| "default_helper_alias OpenBlock = ''_openBlock''"
| "default_helper_alias CreateBlock = ''_createBlock''"
| "default_helper_alias CreateElementBlock = ''_createElementBlock''"
| "default_helper_alias CreateVNode = ''_createVNode''"
| "default_helper_alias CreateElementVNode = ''_createElementVNode''"
| "default_helper_alias CreateComment = ''_createCommentVNode''"
| "default_helper_alias CreateText = ''_createTextVNode''"
| "default_helper_alias ToDisplayString = ''_toDisplayString''"
| "default_helper_alias RenderList = ''_renderList''"
| "default_helper_alias RenderSlot = ''_renderSlot''"
| "default_helper_alias WithDirectives = ''_withDirectives''"
| "default_helper_alias VShow = ''_vShow''"
| "default_helper_alias ResolveComponent = ''_resolveComponent''"

text \<open>Binding kinds reported by the script compiler (specification, section 6).\<close>

datatype binding_type =
    SetupConst | SetupRef | SetupMaybeRef | SetupLet | SetupReactiveConst
  | BindingProps | BindingPropsAliased | LiteralConst | BindingData | BindingOptions

record binding_metadata =
  bindings :: "string \<rightharpoonup> binding_type"

record codegen_options =
  opt_ssr :: bool
  opt_runtime_global_name :: string
  opt_runtime_module_name :: string
  opt_binding_metadata :: "binding_metadata option"

text \<open>\<open>CodegenOptions::default()\<close>: browser target, global \<open>Vue\<close>, module
  \<open>vue\<close>, no binding metadata.\<close>

definition default_codegen_options :: codegen_options where
  "default_codegen_options =
     \<lparr>opt_ssr = False, opt_runtime_global_name = ''Vue'', opt_runtime_module_name = ''vue'',
      opt_binding_metadata = None\<rparr>"

section \<open>The context\<close>

record codegen_context =
  code :: string
  indent_level :: u32
  ssr :: bool
  helper_alias :: "runtime_helper \<Rightarrow> string"
  runtime_global_name :: string
  runtime_module_name :: string
  options :: codegen_options
  pure :: bool
  used_helpers :: "runtime_helper set"
  cache_index :: usize
  slot_params :: "string set"

text \<open>\<open>CodegenResult\<close>: the generated code, the preamble, an optional source map.\<close>

record codegen_result =
  result_code :: string
  result_preamble :: string
  result_map :: "string option"

definition codegen_context_new :: "codegen_options \<Rightarrow> codegen_context" where
  "codegen_context_new opts =
     \<lparr>code = [], indent_level = 0, ssr = opt_ssr opts, helper_alias = default_helper_alias,
      runtime_global_name = opt_runtime_global_name opts,
      runtime_module_name = opt_runtime_module_name opts, options = opts, pure = False,
      used_helpers = {}, cache_index = 0, slot_params = {}\<rparr>"

section \<open>Operations\<close>

text \<open>The two loops over \<open>params\<close> insert, respectively remove, one name at a time.\<close>

definition add_slot_params :: "codegen_context \<Rightarrow> string list \<Rightarrow> codegen_context" where
  "add_slot_params ctx params =
     ctx\<lparr>slot_params := fold insert params (slot_params ctx)\<rparr>"

definition remove_slot_params :: "codegen_context \<Rightarrow> string list \<Rightarrow> codegen_context" where
  "remove_slot_params ctx params =
     ctx\<lparr>slot_params := fold (\<lambda>p s. s - {p}) params (slot_params ctx)\<rparr>"

definition is_slot_param :: "codegen_context \<Rightarrow> string \<Rightarrow> bool" where
  "is_slot_param ctx name \<longleftrightarrow> name \<in> slot_params ctx"

definition next_cache_index :: "codegen_context \<Rightarrow> usize \<times> codegen_context" where
  "next_cache_index ctx = (cache_index ctx, ctx\<lparr>cache_index := cache_index ctx + 1\<rparr>)"

definition push :: "codegen_context \<Rightarrow> string \<Rightarrow> codegen_context" where
  "push ctx s = ctx\<lparr>code := code ctx @ s\<rparr>"

text \<open>\<open>newline\<close>: a line feed, then two spaces for each level of indentation.\<close>

definition newline :: "codegen_context \<Rightarrow> codegen_context" where
  "newline ctx =
     ctx\<lparr>code := code ctx @ [CHR 0x0A] @ concat (replicate (unat (indent_level ctx)) ''  '')\<rparr>"

definition push_line :: "codegen_context \<Rightarrow> string \<Rightarrow> codegen_context" where
  "push_line ctx s = newline (push ctx s)"

definition indent :: "codegen_context \<Rightarrow> codegen_context" where
  "indent ctx = ctx\<lparr>indent_level := indent_level ctx + 1\<rparr>"

definition deindent :: "codegen_context \<Rightarrow> codegen_context" where
  "deindent ctx =
     (if 0 < indent_level ctx then ctx\<lparr>indent_level := indent_level ctx - 1\<rparr> else ctx)"

definition push_pure :: "codegen_context \<Rightarrow> codegen_context" where
  "push_pure ctx = (if pure ctx then push ctx ''/*#__PURE__*/ '' else ctx)"

definition helper :: "codegen_context \<Rightarrow> runtime_helper \<Rightarrow> string" where
  "helper ctx h = helper_alias ctx h"

definition use_helper :: "codegen_context \<Rightarrow> runtime_helper \<Rightarrow> codegen_context" where
  "use_helper ctx h = ctx\<lparr>used_helpers := insert h (used_helpers ctx)\<rparr>"

definition is_component_in_bindings :: "codegen_context \<Rightarrow> string \<Rightarrow> bool" where
  "is_component_in_bindings ctx component =
     (case opt_binding_metadata (options ctx) of
        Some metadata \<Rightarrow> bindings metadata component \<noteq> None
      | None \<Rightarrow> False)"

text \<open>A run of \<open>n\<close> consecutive \<open>v-once\<close>/\<open>v-memo\<close> sites in source order:
  the indices they receive, and the context afterwards.\<close>

fun cache_indices :: "nat \<Rightarrow> codegen_context \<Rightarrow> usize list \<times> codegen_context" where
  "cache_indices 0 ctx = ([], ctx)"
| "cache_indices (Suc n) ctx =
     (let (i, ctx') = next_cache_index ctx; (is, ctx'') = cache_indices n ctx' in (i # is, ctx''))"

section \<open>Characteristic equations\<close>

lemma push_simps [simp, buffer_simps]:
  "code (push ctx s) = code ctx @ s"
  "indent_level (push ctx s) = indent_level ctx"
  "used_helpers (push ctx s) = used_helpers ctx"
  "helper_alias (push ctx s) = helper_alias ctx"
  "cache_index (push ctx s) = cache_index ctx"
  "slot_params (push ctx s) = slot_params ctx"
  "pure (push ctx s) = pure ctx"
  by (simp_all add: push_def)

lemma use_helper_simps [simp, buffer_simps]:
  "code (use_helper ctx h) = code ctx"
  "indent_level (use_helper ctx h) = indent_level ctx"
  "used_helpers (use_helper ctx h) = insert h (used_helpers ctx)"
  "helper_alias (use_helper ctx h) = helper_alias ctx"
  "cache_index (use_helper ctx h) = cache_index ctx"
  "slot_params (use_helper ctx h) = slot_params ctx"
  "pure (use_helper ctx h) = pure ctx"
  by (simp_all add: use_helper_def)

lemma newline_simps [simp, buffer_simps]:
  "code (newline ctx) = code ctx @ [CHR 0x0A] @ concat (replicate (unat (indent_level ctx)) ''  '')"
  "indent_level (newline ctx) = indent_level ctx"
  "used_helpers (newline ctx) = used_helpers ctx"
  "helper_alias (newline ctx) = helper_alias ctx"
  "cache_index (newline ctx) = cache_index ctx"
  "slot_params (newline ctx) = slot_params ctx"
  by (simp_all add: newline_def)

lemma indent_simps [simp, buffer_simps]:
  "code (indent ctx) = code ctx"
  "indent_level (indent ctx) = indent_level ctx + 1"
  "used_helpers (indent ctx) = used_helpers ctx"
  "helper_alias (indent ctx) = helper_alias ctx"
  "cache_index (indent ctx) = cache_index ctx"
  "slot_params (indent ctx) = slot_params ctx"
  by (simp_all add: indent_def)

lemma deindent_simps [simp, buffer_simps]:
  "code (deindent ctx) = code ctx"
  "indent_level (deindent ctx) = (if 0 < indent_level ctx then indent_level ctx - 1 else indent_level ctx)"
  "used_helpers (deindent ctx) = used_helpers ctx"
  "helper_alias (deindent ctx) = helper_alias ctx"
  "cache_index (deindent ctx) = cache_index ctx"
  "slot_params (deindent ctx) = slot_params ctx"
  by (simp_all add: deindent_def)

lemma helper_eq [simp]: "helper ctx h = helper_alias ctx h"
  by (simp add: helper_def)

lemma cache_indices_Suc [simp]:
  "cache_indices (Suc n) c =
     (cache_index c # fst (cache_indices n (c\<lparr>cache_index := cache_index c + 1\<rparr>)),
      snd (cache_indices n (c\<lparr>cache_index := cache_index c + 1\<rparr>)))"
  by (simp add: next_cache_index_def split: prod.split)

declare cache_indices.simps(2) [simp del]

lemma fold_insert_union: "fold insert ps S = S \<union> set ps"
  by (induction ps arbitrary: S) auto

lemma fold_remove_diff: "fold (\<lambda>p s. s - {p}) ps S = S - set ps"
  by (induction ps arbitrary: S) auto

lemma slot_params_add [simp]: "slot_params (add_slot_params c ps) = slot_params c \<union> set ps"
  by (simp add: add_slot_params_def fold_insert_union)

lemma slot_params_remove [simp]: "slot_params (remove_slot_params c ps) = slot_params c - set ps"
  by (simp add: remove_slot_params_def fold_remove_diff)

lemma codegen_context_new_simps [simp]:
  "code (codegen_context_new opts) = []"
  "indent_level (codegen_context_new opts) = 0"
  "used_helpers (codegen_context_new opts) = {}"
  "cache_index (codegen_context_new opts) = 0"
  "slot_params (codegen_context_new opts) = {}"
  "helper_alias (codegen_context_new opts) = default_helper_alias"
  "pure (codegen_context_new opts) = False"
  "options (codegen_context_new opts) = opts"
  by (simp_all add: codegen_context_new_def)

section \<open>Cache indices of v-once and v-memo sites\<close>

lemma cache_indices_length: "length (fst (cache_indices n c)) = n"
  by (induction n arbitrary: c) simp_all

lemma cache_indices_final: "cache_index (snd (cache_indices n c)) = cache_index c + of_nat n"
  by (induction n arbitrary: c) (simp_all add: ac_simps)

lemma cache_indices_nth:
  "k < n \<Longrightarrow> fst (cache_indices n c) ! k = cache_index c + of_nat k"
proof (induction n arbitrary: c k)
  case 0
  then show ?case by simp
next
  case (Suc n)
  then show ?case
    by (cases k) (simp_all add: ac_simps)
qed

lemma cache_indices_unat:
  assumes "unat (cache_index c) + n \<le> 2 ^ 64"
  shows "map unat (fst (cache_indices n c)) = [unat (cache_index c) ..< unat (cache_index c) + n]"
proof (rule nth_equalityI)
  show "length (map unat (fst (cache_indices n c))) =
        length [unat (cache_index c) ..< unat (cache_index c) + n]"
    by (simp add: cache_indices_length)
next
  fix k
  assume "k < length (map unat (fst (cache_indices n c)))"
  then have k: "k < n" by (simp add: cache_indices_length)
  with assms have "unat (cache_index c) + k < 2 ^ 64" by simp
  then have "unat (cache_index c + of_nat k) = unat (cache_index c) + k"
    using unat_add_lem [of "cache_index c" "of_nat k"] by (simp add: unat_of_nat)
  with k show "map unat (fst (cache_indices n c)) ! k =
               [unat (cache_index c) ..< unat (cache_index c) + n] ! k"
    by (simp add: cache_indices_length cache_indices_nth)
qed

text \<open>C18: the cache indices handed to the \<open>v-once\<close>/\<open>v-memo\<close> sites of one
  compile unit, read as unsigned integers, are \<open>0, 1, 2, \<dots>\<close> in source order:
  strictly increasing, without gaps or repeats, for up to \<open>2^64\<close> sites.\<close>

theorem cache_indices_from_zero:
  assumes "cache_index c = 0" and "n \<le> 2 ^ 64"
  shows "map unat (fst (cache_indices n c)) = [0 ..< n]"
  using assms cache_indices_unat [of c n] by simp

theorem cache_indices_from_zero_witness:
  "cache_index (codegen_context_new default_codegen_options) = 0 \<and> (3::nat) \<le> 2 ^ 64 \<and>
   map unat (fst (cache_indices 3 (codegen_context_new default_codegen_options))) = [0, 1, 2]"
  using cache_indices_from_zero [of "codegen_context_new default_codegen_options" 3]
  by (simp add: upt_rec)

text \<open>The counter is a \<open>usize\<close>: the site after the \<open>2^64\<close>-th receives the first
  index again (a release build wraps; a debug build panics).\<close>

lemma cache_indices_wrap: "fst (cache_indices (Suc (2 ^ 64)) c) ! (2 ^ 64) = cache_index c"
proof -
  have "(2::nat) ^ 64 < Suc (2 ^ 64)" by simp
  then have "fst (cache_indices (Suc (2 ^ 64)) c) ! (2 ^ 64) = cache_index c + of_nat (2 ^ 64)"
    by (rule cache_indices_nth)
  then show ?thesis by simp
qed

section \<open>Indentation\<close>

lemma indent_level_succ_pos: "(l :: u32) \<noteq> - 1 \<Longrightarrow> 0 < l + 1"
  by (metis add.commute add_eq_0_iff word_neq_0_conv)

lemma deindent_indent: "indent_level c \<noteq> - 1 \<Longrightarrow> deindent (indent c) = c"
  by (simp add: deindent_def indent_def indent_level_succ_pos)

text \<open>\<open>indent\<close> is not guarded: at the largest level it wraps to zero, and the
  matching \<open>deindent\<close> does not restore the level.\<close>

lemma indent_overflow: "indent_level c = - 1 \<Longrightarrow> indent_level (deindent (indent c)) = 0"
  by (simp add: deindent_def indent_def)

text \<open>C25: \<open>indent\<close> followed by \<open>deindent\<close> gives back the same context exactly
  when the \<open>u32\<close> level is below its maximum: at the maximum the unchecked increment
  wraps to zero, where the saturating \<open>deindent\<close> leaves it.\<close>

theorem indent_deindent_roundtrip: "deindent (indent c) = c \<longleftrightarrow> indent_level c \<noteq> - 1"
proof
  assume r: "deindent (indent c) = c"
  show "indent_level c \<noteq> - 1"
  proof
    assume "indent_level c = - 1"
    moreover from this have "indent_level (deindent (indent c)) = 0" by (rule indent_overflow)
    ultimately show False using r by simp
  qed
next
  assume "indent_level c \<noteq> - 1"
  then show "deindent (indent c) = c" by (rule deindent_indent)
qed

section \<open>Slot-parameter scope\<close>

text \<open>The specification asks for correctly nested \<open>enter\<close>/\<open>leave\<close> of slot
  parameters. Its abstract model is a multiset of the names in scope: entering adds
  the parameters, leaving takes exactly those occurrences away again.\<close>

definition scope_enter :: "string multiset \<Rightarrow> string list \<Rightarrow> string multiset" where
  "scope_enter M ps = M + mset ps"

definition scope_leave :: "string multiset \<Rightarrow> string list \<Rightarrow> string multiset" where
  "scope_leave M ps = M - mset ps"

lemma scope_leave_enter: "scope_leave (scope_enter M ps) ps = M"
  by (simp add: scope_enter_def scope_leave_def)

lemma slot_params_refine_enter:
  "slot_params c = set_mset M \<Longrightarrow> slot_params (add_slot_params c ps) = set_mset (scope_enter M ps)"
  by (simp add: scope_enter_def)

text \<open>C20: leaving a slot scope restores the set of slot parameters exactly when
  none of its parameters was already in scope: \<open>slot_params\<close> is a set, so an
  inner parameter that shadows an outer one removes the outer one as well.\<close>

theorem slot_scope_restore_iff:
  "slot_params (remove_slot_params (add_slot_params c ps) ps) = slot_params c \<longleftrightarrow>
   set ps \<inter> slot_params c = {}"
  by auto

text \<open>C21: refinement of the abstract scope by \<open>remove_slot_params\<close>: when the
  set of slot parameters is the support of the abstract multiset and the names being
  left occur in the abstract scope no more often than they are left, the set after
  \<open>remove_slot_params\<close> is the support of the abstract scope after leaving.\<close>

theorem slot_params_refine_leave:
  assumes "slot_params c = set_mset M" and "\<forall>x \<in> set ps. count M x \<le> count (mset ps) x"
  shows "slot_params (remove_slot_params c ps) = set_mset (scope_leave M ps)"
proof (rule set_eqI)
  fix x
  show "x \<in> slot_params (remove_slot_params c ps) \<longleftrightarrow> x \<in> set_mset (scope_leave M ps)"
  proof (cases "x \<in> set ps")
    case True
    with assms(2) have "count M x \<le> count (mset ps) x" by blast
    with True show ?thesis by (simp add: scope_leave_def not_in_iff)
  next
    case False
    then have z: "count (mset ps) x = 0" by (simp add: count_mset_0_iff)
    have "x \<in># scope_leave M ps \<longleftrightarrow> x \<in># M"
      unfolding scope_leave_def in_diff_count z by simp
    with False assms(1) show ?thesis by simp
  qed
qed

theorem slot_params_refine_leave_witness:
  "slot_params (add_slot_params (codegen_context_new default_codegen_options) [''item'']) =
     set_mset {#''item''#} \<and>
   count {#''item''#} ''item'' \<le> count (mset [''item'']) ''item'' \<and>
   slot_params (remove_slot_params (add_slot_params (codegen_context_new default_codegen_options)
     [''item'']) [''item'']) = set_mset (scope_leave {#''item''#} [''item''])"
proof -
  have h1: "slot_params (add_slot_params (codegen_context_new default_codegen_options) [''item'']) =
     set_mset {#''item''#}" by simp
  have h2: "\<forall>x \<in> set [''item'']. count {#''item''#} x \<le> count (mset [''item'']) x" by simp
  show ?thesis
    using h1 h2 slot_params_refine_leave [OF h1 h2] by simp
qed

lemma nested_shadow_lost:
  "\<not> is_slot_param (remove_slot_params (add_slot_params (add_slot_params c [x]) [x]) [x]) x"
  by (simp add: is_slot_param_def)

section \<open>Binding metadata\<close>

lemma is_component_in_bindings_no_pascal_case:
  "\<not> is_component_in_bindings (codegen_context_new
     (default_codegen_options\<lparr>opt_binding_metadata := Some \<lparr>bindings = [''MyComp'' \<mapsto> SetupConst]\<rparr>\<rparr>))
     ''my-comp''"
  by (simp add: is_component_in_bindings_def)


section \<open>Reachable contexts\<close>

text \<open>The methods of \<open>CodegenContext\<close> that take \<open>&mut self\<close>, as operations on the
  context, and the contexts a generator can reach from \<open>CodegenContext::new\<close> by any
  sequence of them. The fields are \<open>pub(super)\<close>, so a generator module of the
  same crate (outside the sources) may also write them directly; what follows covers
  contexts changed through the methods only.\<close>

datatype ctx_op =
    OpAddSlotParams "string list" | OpRemoveSlotParams "string list" | OpNextCacheIndex
  | OpPush string | OpPushLine string | OpNewline | OpIndent | OpDeindent | OpPushPure
  | OpUseHelper runtime_helper

fun ctx_step :: "codegen_context \<Rightarrow> ctx_op \<Rightarrow> codegen_context" where
  "ctx_step ctx (OpAddSlotParams ps) = add_slot_params ctx ps"
| "ctx_step ctx (OpRemoveSlotParams ps) = remove_slot_params ctx ps"
| "ctx_step ctx OpNextCacheIndex = snd (next_cache_index ctx)"
| "ctx_step ctx (OpPush s) = push ctx s"
| "ctx_step ctx (OpPushLine s) = push_line ctx s"
| "ctx_step ctx OpNewline = newline ctx"
| "ctx_step ctx OpIndent = indent ctx"
| "ctx_step ctx OpDeindent = deindent ctx"
| "ctx_step ctx OpPushPure = push_pure ctx"
| "ctx_step ctx (OpUseHelper h) = use_helper ctx h"

inductive ctx_reachable :: "codegen_options \<Rightarrow> codegen_context \<Rightarrow> bool" for opts where
  new: "ctx_reachable opts (codegen_context_new opts)"
| step: "ctx_reachable opts ctx \<Longrightarrow> ctx_reachable opts (ctx_step ctx op)"

text \<open>The well-formedness of a context built from \<open>opts\<close>: the configuration copied
  from the options at construction, the default helper aliases, no pure annotation,
  finitely many slot parameters.\<close>

definition ctx_wf :: "codegen_options \<Rightarrow> codegen_context \<Rightarrow> bool" where
  "ctx_wf opts ctx \<longleftrightarrow>
     ssr ctx = opt_ssr opts \<and> options ctx = opts \<and>
     runtime_global_name ctx = opt_runtime_global_name opts \<and>
     runtime_module_name ctx = opt_runtime_module_name opts \<and>
     helper_alias ctx = default_helper_alias \<and> \<not> pure ctx \<and> finite (slot_params ctx)"

lemma ctx_step_config [simp]:
  "ssr (ctx_step ctx op) = ssr ctx"
  "options (ctx_step ctx op) = options ctx"
  "runtime_global_name (ctx_step ctx op) = runtime_global_name ctx"
  "runtime_module_name (ctx_step ctx op) = runtime_module_name ctx"
  "helper_alias (ctx_step ctx op) = helper_alias ctx"
  "pure (ctx_step ctx op) = pure ctx"
  by (cases op; simp add: add_slot_params_def remove_slot_params_def next_cache_index_def push_def
      push_line_def newline_def indent_def deindent_def push_pure_def use_helper_def)+

lemma ctx_step_slot_params_finite:
  "finite (slot_params ctx) \<Longrightarrow> finite (slot_params (ctx_step ctx op))"
  by (cases op) (simp_all add: next_cache_index_def push_line_def push_pure_def deindent_def)

lemma ctx_run_reachable: "ctx_reachable opts ctx \<Longrightarrow> ctx_reachable opts (fold (\<lambda>op c. ctx_step c op) ops ctx)"
  by (induction ops arbitrary: ctx) (auto intro: ctx_reachable.step)

text \<open>C17: every context reachable from \<open>CodegenContext::new opts\<close> through the
  context's methods is well formed: the SSR flag, options and runtime names are those
  of \<open>opts\<close>, helpers are called by their default aliases, the pure flag is off and
  the slot-parameter set is finite. In particular \<open>push_pure\<close> writes nothing on such
  a context: no method sets the pure flag that \<open>new\<close> clears.\<close>

theorem reachable_ctx_wf:
  assumes "ctx_reachable opts ctx"
  shows "ctx_wf opts ctx"
  using assms
proof (induction rule: ctx_reachable.induct)
  case new
  then show ?case by (simp add: ctx_wf_def codegen_context_new_def)
next
  case (step ctx op)
  then show ?case by (simp add: ctx_wf_def ctx_step_slot_params_finite)
qed

definition ex_ctx_ops :: "ctx_op list" where
  "ex_ctx_ops = [OpUseHelper OpenBlock, OpPush ''('', OpIndent, OpAddSlotParams [''item''],
     OpPushLine ''x'', OpNextCacheIndex, OpDeindent, OpRemoveSlotParams [''item'']]"

theorem reachable_ctx_wf_witness:
  "ctx_reachable default_codegen_options
     (fold (\<lambda>op c. ctx_step c op) ex_ctx_ops (codegen_context_new default_codegen_options)) \<and>
   ctx_wf default_codegen_options
     (fold (\<lambda>op c. ctx_step c op) ex_ctx_ops (codegen_context_new default_codegen_options))"
proof -
  have r: "ctx_reachable default_codegen_options
     (fold (\<lambda>op c. ctx_step c op) ex_ctx_ops (codegen_context_new default_codegen_options))"
    by (rule ctx_run_reachable [OF ctx_reachable.new])
  show ?thesis using r reachable_ctx_wf [OF r] by simp
qed

end
