(* ===== verification/CodegenIface.thy ===== *)
theory CodegenIface
  imports CodegenContext
begin

text \<open>
  The interface between the code generators of the sources and the generator
  modules they call but that are not among the sources (\<open>codegen/expression.rs\<close>,
  \<open>codegen/children.rs\<close>, \<open>codegen/node.rs\<close>, \<open>codegen/element.rs\<close>). The modelled
  generators take these callees as a record of functions on the context. Their
  contract, \<open>iface_ok\<close>, is what the callers rely on: a callee only appends to the
  buffer, leaves the indentation level and the helper alias table as it found them,
  and never forgets a runtime helper already in use. \<open>example_iface\<close> is a small
  instance of the interface, built from the specification's description of
  expression and text codegen, which discharges the contract and lets the
  theorems about the callers be applied to concrete templates.
\<close>

record codegen_iface =
  gen_expression :: "codegen_context \<Rightarrow> expression_node \<Rightarrow> codegen_context"
  gen_children :: "codegen_context \<Rightarrow> template_child list \<Rightarrow> codegen_context"
  gen_node :: "codegen_context \<Rightarrow> template_child \<Rightarrow> codegen_context"
  has_vshow_directive :: "element_node \<Rightarrow> bool"
  gen_vshow_closing :: "codegen_context \<Rightarrow> element_node \<Rightarrow> codegen_context"

section \<open>The contract of a callee\<close>

text \<open>\<open>grows c c'\<close>: \<open>c'\<close> is \<open>c\<close> with more output and possibly more helpers in
  use; \<open>extends\<close> adds that the indentation level is back where it was.\<close>

definition grows :: "codegen_context \<Rightarrow> codegen_context \<Rightarrow> bool" where
  "grows c c' \<longleftrightarrow>
     prefix (code c) (code c') \<and> used_helpers c \<subseteq> used_helpers c' \<and> helper_alias c' = helper_alias c"

definition extends :: "codegen_context \<Rightarrow> codegen_context \<Rightarrow> bool" where
  "extends c c' \<longleftrightarrow> grows c c' \<and> indent_level c' = indent_level c"

definition iface_ok :: "codegen_iface \<Rightarrow> bool" where
  "iface_ok g \<longleftrightarrow>
     (\<forall>c e. extends c (gen_expression g c e)) \<and>
     (\<forall>c cs. extends c (gen_children g c cs)) \<and>
     (\<forall>c n. extends c (gen_node g c n)) \<and>
     (\<forall>c el. extends c (gen_vshow_closing g c el))"

named_theorems grows_intros "steps that only add output and helpers"
named_theorems extends_intros "steps that add output and helpers and restore the indentation"

lemma grows_refl [grows_intros]: "grows c c"
  by (simp add: grows_def)

lemma grows_trans: "grows a b \<Longrightarrow> grows b c \<Longrightarrow> grows a c"
  by (auto simp add: grows_def elim: prefix_order.trans)

lemma grows_push [grows_intros]: "grows c c' \<Longrightarrow> grows c (push c' s)"
  by (auto simp add: grows_def prefix_def)

lemma grows_use_helper [grows_intros]: "grows c c' \<Longrightarrow> grows c (use_helper c' h)"
  by (auto simp add: grows_def)

lemma grows_newline [grows_intros]: "grows c c' \<Longrightarrow> grows c (newline c')"
  by (auto simp add: grows_def prefix_def)

lemma grows_indent [grows_intros]: "grows c c' \<Longrightarrow> grows c (indent c')"
  by (simp add: grows_def)

lemma grows_deindent [grows_intros]: "grows c c' \<Longrightarrow> grows c (deindent c')"
  by (simp add: grows_def)

lemma grows_code: "grows c c' \<Longrightarrow> \<exists>s. code c' = code c @ s"
  by (auto simp add: grows_def prefix_def)

lemma grows_helpers: "grows c c' \<Longrightarrow> used_helpers c \<subseteq> used_helpers c'"
  by (simp add: grows_def)

lemma extends_grows: "extends c c' \<Longrightarrow> grows c c'"
  by (simp add: extends_def)

lemma extends_refl [extends_intros]: "extends c c"
  by (simp add: extends_def grows_refl)

lemma extends_trans: "extends a b \<Longrightarrow> extends b c \<Longrightarrow> extends a c"
  by (auto simp add: extends_def intro: grows_trans)

lemma extends_push [extends_intros]: "extends c c' \<Longrightarrow> extends c (push c' s)"
  by (simp add: extends_def grows_push)

lemma extends_use_helper [extends_intros]: "extends c c' \<Longrightarrow> extends c (use_helper c' h)"
  by (simp add: extends_def grows_use_helper)

lemma extends_newline [extends_intros]: "extends c c' \<Longrightarrow> extends c (newline c')"
  by (simp add: extends_def grows_newline)

lemma extends_indent_deindent [extends_intros]:
  "extends (indent c') c'' \<Longrightarrow> extends c c' \<Longrightarrow> indent_level c \<noteq> - 1 \<Longrightarrow> extends c (deindent c'')"
  by (auto simp add: extends_def grows_def deindent_def indent_level_succ_pos elim: prefix_order.trans)

lemma grows_if [grows_intros]:
  "(P \<Longrightarrow> grows c a) \<Longrightarrow> (\<not> P \<Longrightarrow> grows c b) \<Longrightarrow> grows c (if P then a else b)"
  by simp

lemma grows_case_option [grows_intros]:
  "(\<And>v. x = Some v \<Longrightarrow> grows c (f v)) \<Longrightarrow> (x = None \<Longrightarrow> grows c b) \<Longrightarrow>
   grows c (case x of Some v \<Rightarrow> f v | None \<Rightarrow> b)"
  by (cases x) simp_all

lemma extends_if [extends_intros]:
  "(P \<Longrightarrow> extends c a) \<Longrightarrow> (\<not> P \<Longrightarrow> extends c b) \<Longrightarrow> extends c (if P then a else b)"
  by simp

lemma extends_case_option [extends_intros]:
  "(\<And>v. x = Some v \<Longrightarrow> extends c (f v)) \<Longrightarrow> (x = None \<Longrightarrow> extends c b) \<Longrightarrow>
   extends c (case x of Some v \<Rightarrow> f v | None \<Rightarrow> b)"
  by (cases x) simp_all

lemma iface_ok_expression [extends_intros]:
  "iface_ok g \<Longrightarrow> extends c c' \<Longrightarrow> extends c (gen_expression g c' e)"
  by (auto simp add: iface_ok_def intro: extends_trans)

lemma iface_ok_children [extends_intros]:
  "iface_ok g \<Longrightarrow> extends c c' \<Longrightarrow> extends c (gen_children g c' cs)"
  by (auto simp add: iface_ok_def intro: extends_trans)

lemma iface_ok_node [extends_intros]:
  "iface_ok g \<Longrightarrow> extends c c' \<Longrightarrow> extends c (gen_node g c' n)"
  by (auto simp add: iface_ok_def intro: extends_trans)

lemma iface_ok_vshow_closing [extends_intros]:
  "iface_ok g \<Longrightarrow> extends c c' \<Longrightarrow> extends c (gen_vshow_closing g c' el)"
  by (auto simp add: iface_ok_def intro: extends_trans)

lemma iface_ok_expression_grows [grows_intros]:
  "iface_ok g \<Longrightarrow> grows c c' \<Longrightarrow> grows c (gen_expression g c' e)"
  by (meson iface_ok_def extends_grows grows_trans)

lemma iface_ok_children_grows [grows_intros]:
  "iface_ok g \<Longrightarrow> grows c c' \<Longrightarrow> grows c (gen_children g c' cs)"
  by (meson iface_ok_def extends_grows grows_trans)

lemma iface_ok_node_grows [grows_intros]:
  "iface_ok g \<Longrightarrow> grows c c' \<Longrightarrow> grows c (gen_node g c' n)"
  by (meson iface_ok_def extends_grows grows_trans)

lemma iface_ok_vshow_closing_grows [grows_intros]:
  "iface_ok g \<Longrightarrow> grows c c' \<Longrightarrow> grows c (gen_vshow_closing g c' el)"
  by (meson iface_ok_def extends_grows grows_trans)

section \<open>An instance of the interface\<close>

text \<open>Expressions: a static expression as written, a dynamic one with the
  \<open>_ctx.\<close> prefix unless it is a slot parameter in scope (specification, 4.7);
  a compound expression by its source text.\<close>

fun example_expression :: "codegen_context \<Rightarrow> expression_node \<Rightarrow> codegen_context" where
  "example_expression ctx (Simple e) =
     push ctx (if is_static e \<or> is_slot_param ctx (content e) then content e
               else ''_ctx.'' @ content e)"
| "example_expression ctx (Compound c) = push ctx (loc_source (cloc c))"

fun example_node :: "codegen_context \<Rightarrow> template_child \<Rightarrow> codegen_context" where
  "example_node ctx (Text s) = push ctx (''\"'' @ s @ ''\"'')"
| "example_node ctx (Interpolation e) =
     push (example_expression (push (use_helper ctx ToDisplayString)
       (helper ctx ToDisplayString @ ''('')) e) '')''"
| "example_node ctx (Element el) =
     push (use_helper ctx CreateElementVNode) (helper ctx CreateElementVNode @ ''(\"'' @ tag el @ ''\")'')"
| "example_node ctx _ = push ctx ''null''"

fun example_node_list :: "codegen_context \<Rightarrow> template_child list \<Rightarrow> codegen_context" where
  "example_node_list ctx [] = ctx"
| "example_node_list ctx [n] = example_node ctx n"
| "example_node_list ctx (n # ns) = example_node_list (push (example_node ctx n) '', '') ns"

definition example_children :: "codegen_context \<Rightarrow> template_child list \<Rightarrow> codegen_context" where
  "example_children ctx cs = push (example_node_list (push ctx ''['') cs) '']''"

definition example_has_vshow :: "element_node \<Rightarrow> bool" where
  "example_has_vshow el =
     list_ex (\<lambda>p. case p of Directive d \<Rightarrow> dir_name d = ''show'' | _ \<Rightarrow> False) (props el)"

definition example_vshow_closing :: "codegen_context \<Rightarrow> element_node \<Rightarrow> codegen_context" where
  "example_vshow_closing ctx el = push ctx ('', [['' @ helper ctx VShow @ '']])'')"

definition example_iface :: codegen_iface where
  "example_iface =
     \<lparr>gen_expression = example_expression, gen_children = example_children,
      gen_node = example_node, has_vshow_directive = example_has_vshow,
      gen_vshow_closing = example_vshow_closing\<rparr>"

lemma example_expression_extends: "extends c (example_expression c e)"
  by (cases e) (simp_all add: extends_refl extends_push)

lemma example_node_extends: "extends c (example_node c n)"
proof (cases n)
  case (Interpolation e)
  have "extends c (push (use_helper c ToDisplayString) (helper c ToDisplayString @ ''(''))"
    by (intro extends_intros)
  then have "extends c (example_expression (push (use_helper c ToDisplayString)
               (helper c ToDisplayString @ ''('')) e)"
    using example_expression_extends extends_trans by blast
  with Interpolation show ?thesis by (simp add: extends_push)
next
  case (Element el)
  then show ?thesis by (simp add: extends_intros)
qed (simp_all add: extends_refl extends_push)

lemma example_node_list_extends: "extends c (example_node_list c ns)"
proof (induction c ns rule: example_node_list.induct)
  case (3 ctx n v vs)
  then show ?case
    using example_node_extends extends_trans extends_push extends_refl by fastforce
qed (simp_all add: extends_refl example_node_extends)

lemma iface_ok_example: "iface_ok example_iface"
  unfolding iface_ok_def example_iface_def
  by (auto simp add: example_expression_extends example_node_extends example_children_def
      example_vshow_closing_def intro: extends_push extends_refl
      extends_trans [OF extends_push [OF extends_refl] example_node_list_extends])

end
