(* ===== verification/VFor.thy ===== *)
theory VFor
  imports CodegenIface
begin

unbundle bit_operations_syntax

text \<open>
  The \<open>v-for\<close> generator of \<open>src/crates/vue_compiler_core/src/codegen/v_for.rs\<close>:
  the classification of a list as stable (a digit-literal source), keyed (a direct
  child element with a \<open>:key\<close> binding) or unkeyed, the fragment flag
  \<open>64\<close>/\<open>128\<close>/\<open>256\<close> it selects, \<open>generate_for\<close>, which wraps the
  \<open>renderList\<close> call in a fragment block, and \<open>generate_for_item\<close>, which emits the
  repeated item with or without its own block. The callees outside the sources are
  reached through the interface \<open>codegen_iface\<close>.
\<close>

section \<open>Classification\<close>

text \<open>\<open>is_numeric_source\<close>: a simple expression all of whose characters are ASCII
  digits (\<open>chars().all(..)\<close>, so also the empty source).\<close>

fun is_numeric_source :: "expression_node \<Rightarrow> bool" where
  "is_numeric_source (Simple exp) = list_all is_ascii_digit (content exp)"
| "is_numeric_source (Compound _) = False"

text \<open>\<open>get_element_key\<close>: the first directive named \<open>bind\<close> whose argument is a
  simple expression with content \<open>key\<close> ends the search and yields its value
  expression, if it has one.\<close>

fun is_key_arg :: "expression_node option \<Rightarrow> bool" where
  "is_key_arg (Some (Simple arg)) = (content arg = ''key'')"
| "is_key_arg _ = False"

fun find_key_prop :: "prop_node list \<Rightarrow> expression_node option" where
  "find_key_prop [] = None"
| "find_key_prop (Attribute _ # ps) = find_key_prop ps"
| "find_key_prop (Directive dir # ps) =
     (if dir_name dir = ''bind'' \<and> is_key_arg (dir_arg dir) then dir_exp dir else find_key_prop ps)"

definition get_element_key :: "element_node \<Rightarrow> expression_node option" where
  "get_element_key el = find_key_prop (props el)"

text \<open>The \<open>has_key\<close> test of \<open>generate_for\<close>: some direct child is an element
  with a key.\<close>

definition children_have_key :: "template_child list \<Rightarrow> bool" where
  "children_have_key cs =
     list_ex (\<lambda>child. case child of Element el \<Rightarrow> get_element_key el \<noteq> None | _ \<Rightarrow> False) cs"

definition fragment_flag_of :: "bool \<Rightarrow> bool \<Rightarrow> nat" where
  "fragment_flag_of is_stable has_key =
     (if is_stable then 64 else if has_key then 128 else 256)"

fun fragment_flag_name :: "nat \<Rightarrow> string" where
  "fragment_flag_name flag =
     (if flag = 64 then ''STABLE_FRAGMENT''
      else if flag = 128 then ''KEYED_FRAGMENT''
      else if flag = 256 then ''UNKEYED_FRAGMENT''
      else ''FRAGMENT'')"

text \<open>The flag \<open>generate_for\<close> closes a list with.\<close>

definition for_fragment_flag :: "for_node \<Rightarrow> nat" where
  "for_fragment_flag f =
     fragment_flag_of (is_numeric_source (source f)) (children_have_key (for_children f))"

section \<open>Generators\<close>

fun is_interpolation :: "template_child \<Rightarrow> bool" where
  "is_interpolation (Interpolation _) = True"
| "is_interpolation _ = False"

text \<open>\<open>Simple\<close> keys without a dot stay on one line.\<close>

fun is_simple_key :: "expression_node \<Rightarrow> bool" where
  "is_simple_key (Simple exp) = (CHR ''.'' \<notin> set (content exp))"
| "is_simple_key (Compound _) = False"

text \<open>The children of a \<open>template\<close> item, one per line, comma-separated
  (the enumerated loop of \<open>generate_for_item\<close>).\<close>

fun gen_template_items ::
  "codegen_iface \<Rightarrow> codegen_context \<Rightarrow> nat \<Rightarrow> template_child list \<Rightarrow> codegen_context" where
  "gen_template_items g ctx i [] = ctx"
| "gen_template_items g ctx i (child # cs) =
     gen_template_items g (gen_node g (newline (if 0 < i then push ctx '','' else ctx)) child)
       (Suc i) cs"

text \<open>The opening of an item: \<open>withDirectives(\<close> when the element has \<open>v-show\<close>.\<close>

definition vshow_open :: "codegen_context \<Rightarrow> bool \<Rightarrow> codegen_context" where
  "vshow_open ctx has_vshow =
     (if has_vshow
      then (let ctx = use_helper ctx WithDirectives; ctx = use_helper ctx VShow;
                ctx = push ctx (helper ctx WithDirectives) in push ctx ''('')
      else ctx)"

text \<open>Stable branch: a plain \<open>createElementVNode\<close> call, no block.\<close>

definition gen_stable_item :: "codegen_iface \<Rightarrow> codegen_context \<Rightarrow> element_node \<Rightarrow> codegen_context" where
  "gen_stable_item g ctx el =
     (let key_exp = get_element_key el;
          ctx = use_helper ctx CreateElementVNode;
          ctx = push ctx (helper ctx CreateElementVNode);
          ctx = push ctx ''(\"'';
          ctx = push ctx (tag el);
          ctx = push ctx ''\"'';
          ctx = (case key_exp of
                   Some key \<Rightarrow> push (gen_expression g (push ctx '', { key: '') key) '' }''
                 | None \<Rightarrow> if children el \<noteq> [] then push ctx '', null'' else ctx);
          ctx = (if children el \<noteq> [] then gen_children g (push ctx '', '') (children el) else ctx);
          has_interpolation = list_ex is_interpolation (children el);
          ctx = (if has_interpolation then push ctx '', 1 /* TEXT */'' else ctx)
      in push ctx '')'')"

text \<open>Dynamic branch: the item is its own block, opened by \<open>openBlock()\<close>. Its
  statements fall into four groups, one definition each: the block opening with the
  create call chosen by the tag type (\<open>createBlock\<close> of the resolved component,
  \<open>createElementBlock\<close> of a \<open>Fragment\<close> for a \<open>template\<close>, of the tag otherwise);
  the key prop, inline for a simple key and on its own line otherwise; the children,
  as an array of lines for a \<open>template\<close>; the patch flag and the closing.\<close>

definition block_item_head :: "codegen_context \<Rightarrow> element_node \<Rightarrow> codegen_context" where
  "block_item_head ctx el =
     (let is_template = (tag_type el = TemplateTag);
          is_component = (tag_type el = ComponentTag);
          ctx = use_helper ctx OpenBlock;
          ctx = push ctx ''('';
          ctx = push ctx (helper ctx OpenBlock);
          ctx = push ctx ''(), ''
      in if is_component then
           (let ctx = use_helper ctx CreateBlock;
                ctx = push ctx (helper ctx CreateBlock);
                ctx = push ctx ''(_component_''
            in push ctx (str_replace_char CHR ''-'' ''_'' (tag el)))
         else if is_template then
           (let ctx = use_helper ctx CreateElementBlock;
                ctx = use_helper ctx Fragment;
                ctx = push ctx (helper ctx CreateElementBlock);
                ctx = push ctx ''(''
            in push ctx (helper ctx Fragment))
         else
           (let ctx = use_helper ctx CreateElementBlock;
                ctx = push ctx (helper ctx CreateElementBlock);
                ctx = push ctx ''(\"'';
                ctx = push ctx (tag el)
            in push ctx ''\"''))"

definition block_item_props :: "codegen_iface \<Rightarrow> codegen_context \<Rightarrow> element_node \<Rightarrow> codegen_context" where
  "block_item_props g ctx el =
     (let is_template = (tag_type el = TemplateTag)
      in case get_element_key el of
           Some key \<Rightarrow>
             if is_simple_key key
             then push (gen_expression g (push ctx '', { key: '') key) '' }''
             else push (newline (deindent (gen_expression g
                    (push (newline (indent (push ctx '', {''))) ''key: '') key))) ''}''
         | None \<Rightarrow> if children el \<noteq> [] \<or> is_template then push ctx '', null'' else ctx)"

definition block_item_children ::
  "codegen_iface \<Rightarrow> codegen_context \<Rightarrow> element_node \<Rightarrow> codegen_context" where
  "block_item_children g ctx el =
     (if children el \<noteq> [] then
        (let ctx = push ctx '', ''
         in if tag_type el = TemplateTag
            then push (newline (deindent (gen_template_items g
                   (indent (push ctx ''['')) 0 (children el)))) '']''
            else gen_children g ctx (children el))
      else ctx)"

definition block_item_close :: "codegen_context \<Rightarrow> element_node \<Rightarrow> codegen_context" where
  "block_item_close ctx el =
     (let has_interpolation = list_ex is_interpolation (children el);
          ctx = (if tag_type el = TemplateTag then push ctx '', 64 /* STABLE_FRAGMENT */''
                 else if has_interpolation then push ctx '', 1 /* TEXT */'' else ctx)
      in push ctx ''))'')"

definition gen_block_item :: "codegen_iface \<Rightarrow> codegen_context \<Rightarrow> element_node \<Rightarrow> codegen_context" where
  "gen_block_item g ctx el =
     (let ctx = block_item_head ctx el;
          ctx = block_item_props g ctx el;
          ctx = block_item_children g ctx el
      in block_item_close ctx el)"

definition generate_for_item ::
  "codegen_iface \<Rightarrow> codegen_context \<Rightarrow> template_child \<Rightarrow> bool \<Rightarrow> codegen_context" where
  "generate_for_item g ctx node is_stable =
     (case node of
        Element el \<Rightarrow>
          (let has_vshow = has_vshow_directive g el;
               ctx = vshow_open ctx has_vshow;
               ctx = (if is_stable then gen_stable_item g ctx el else gen_block_item g ctx el)
           in if has_vshow then gen_vshow_closing g ctx el else ctx)
      | _ \<Rightarrow> gen_node g ctx node)"

section \<open>The list generator\<close>

text \<open>The body of \<open>generate_for\<close> is four consecutive groups of statements: the
  helper registrations and the fragment-block opening up to \<open>renderList(\<close>; the
  source and the aliases up to \<open>) => {\<close>; the indented body with the item; the
  closing with the fragment flag. Each group is a definition, and \<open>generate_for\<close>
  runs them in the order of the code.\<close>

definition for_prelude :: "codegen_context \<Rightarrow> bool \<Rightarrow> codegen_context" where
  "for_prelude ctx is_stable =
     (let ctx = use_helper ctx OpenBlock;
          ctx = use_helper ctx CreateElementBlock;
          ctx = use_helper ctx Fragment;
          ctx = use_helper ctx RenderList;
          ctx = push ctx ''('';
          ctx = push ctx (helper ctx OpenBlock);
          ctx = (if is_stable then push ctx ''(), '' else push ctx ''(true), '');
          ctx = push ctx (helper ctx CreateElementBlock);
          ctx = push ctx ''('';
          ctx = push ctx (helper ctx Fragment);
          ctx = push ctx '', null, '';
          ctx = push ctx (helper ctx RenderList)
      in push ctx ''('')"

definition for_params :: "codegen_iface \<Rightarrow> codegen_context \<Rightarrow> for_node \<Rightarrow> codegen_context" where
  "for_params g ctx for_node =
     (let ctx = gen_expression g ctx (source for_node);
          ctx = push ctx '', ('';
          ctx = (case value_alias for_node of
                   Some value \<Rightarrow> gen_expression g ctx value
                 | None \<Rightarrow> push ctx ''_item'');
          ctx = (case key_alias for_node of
                   Some key \<Rightarrow> gen_expression g (push ctx '', '') key
                 | None \<Rightarrow> ctx);
          ctx = (case object_index_alias for_node of
                   Some index \<Rightarrow> gen_expression g (push ctx '', '') index
                 | None \<Rightarrow> ctx)
      in push ctx '') => {'')"

definition for_body :: "codegen_iface \<Rightarrow> codegen_context \<Rightarrow> for_node \<Rightarrow> bool \<Rightarrow> codegen_context" where
  "for_body g ctx for_node is_stable =
     (let ctx = indent ctx;
          ctx = newline ctx;
          ctx = push ctx ''return '';
          ctx = (if length (for_children for_node) = 1
                 then generate_for_item g ctx (hd (for_children for_node)) is_stable
                 else gen_children g ctx (for_children for_node));
          ctx = deindent ctx
      in newline ctx)"

definition for_close :: "codegen_context \<Rightarrow> nat \<Rightarrow> codegen_context" where
  "for_close ctx flag =
     (let ctx = push ctx ''}), '';
          ctx = push ctx (dec_string flag);
          ctx = push ctx '' /* '';
          ctx = push ctx (fragment_flag_name flag)
      in push ctx '' */))'')"

definition generate_for :: "codegen_iface \<Rightarrow> codegen_context \<Rightarrow> for_node \<Rightarrow> codegen_context" where
  "generate_for g ctx for_node =
     (let is_stable = is_numeric_source (source for_node);
          has_key = children_have_key (for_children for_node);
          fragment_flag = fragment_flag_of is_stable has_key;
          ctx = for_prelude ctx is_stable;
          ctx = for_params g ctx for_node;
          ctx = for_body g ctx for_node is_stable
      in for_close ctx fragment_flag)"

section \<open>Example templates\<close>

text \<open>\<open><span v-for="n in 3">{{ n }}</span>\<close>, the inner element alone, and
  \<open><li v-for="item in items" :key="item.id">{{ item.name }}</li>\<close> as the parser
  produces them (aliases are local names and so static).\<close>

definition ex_span :: element_node where
  "ex_span = ElementNode ''span'' ElementTag [] [Interpolation (simple_exp ''n'' False)]"

definition ex_stable_for :: for_node where
  "ex_stable_for = ForNode (simple_exp ''3'' True) (Some (simple_exp ''n'' True)) None None
     [Element ex_span]"

definition ex_li :: element_node where
  "ex_li = ElementNode ''li'' ElementTag
     [directive ''bind'' (Some (simple_exp ''key'' True)) (Some (simple_exp ''item.id'' False))]
     [Interpolation (simple_exp ''item.name'' False)]"

definition ex_keyed_for :: for_node where
  "ex_keyed_for = ForNode (simple_exp ''items'' False) (Some (simple_exp ''item'' True)) None None
     [Element ex_li]"

lemma generate_for_phases:
  "generate_for g ctx f =
     for_close (for_body g (for_params g (for_prelude ctx (is_numeric_source (source f))) f) f
       (is_numeric_source (source f))) (for_fragment_flag f)"
  by (simp only: generate_for_def for_fragment_flag_def Let_def)

text \<open>A component item \<open><my-comp v-for="x in xs"/>\<close> and a \<open>template\<close> item
  \<open><template v-for="..."><span>{{ n }}</span></template>\<close>.\<close>

definition ex_comp :: element_node where
  "ex_comp = ElementNode ''my-comp'' ComponentTag [] []"

definition ex_tpl :: element_node where
  "ex_tpl = ElementNode ''template'' TemplateTag [] [Element ex_span]"

text \<open>An item \<open><li :key="item.id">\<close> whose key is a member access.\<close>

definition ex_dotted :: element_node where
  "ex_dotted = ElementNode ''li'' ElementTag
     [directive ''bind'' (Some (simple_exp ''key'' True)) (Some (simple_exp ''item.id'' False))] []"

section \<open>Growth of the output\<close>

lemma gen_template_items_grows [grows_intros]:
  "iface_ok g \<Longrightarrow> grows c c' \<Longrightarrow> grows c (gen_template_items g c' i cs)"
  by (induction g c' i cs rule: gen_template_items.induct) (simp_all add: grows_intros)

lemma gen_template_items_extends [extends_intros]:
  "iface_ok g \<Longrightarrow> extends c c' \<Longrightarrow> extends c (gen_template_items g c' i cs)"
  by (induction g c' i cs rule: gen_template_items.induct) (simp_all add: extends_intros)

lemma vshow_open_grows [grows_intros]: "grows c c' \<Longrightarrow> grows c (vshow_open c' b)"
  unfolding vshow_open_def Let_def by (intro grows_intros)

lemma vshow_open_extends [extends_intros]: "extends c c' \<Longrightarrow> extends c (vshow_open c' b)"
  unfolding vshow_open_def Let_def by (intro extends_intros)

lemma gen_stable_item_grows [grows_intros]:
  assumes "iface_ok g" and "grows c c'"
  shows "grows c (gen_stable_item g c' el)"
  unfolding gen_stable_item_def Let_def by (intro grows_intros assms)

lemma gen_stable_item_extends [extends_intros]:
  assumes "iface_ok g" and "extends c c'"
  shows "extends c (gen_stable_item g c' el)"
  unfolding gen_stable_item_def Let_def by (rule extends_intros assms)+

lemma block_item_head_grows [grows_intros]:
  assumes "grows c c'"
  shows "grows c (block_item_head c' el)"
  unfolding block_item_head_def Let_def by (rule grows_intros assms)+

lemma block_item_head_extends [extends_intros]:
  assumes "extends c c'"
  shows "extends c (block_item_head c' el)"
  unfolding block_item_head_def Let_def by (rule extends_intros assms)+

lemma block_item_props_grows [grows_intros]:
  assumes "iface_ok g" and "grows c c'"
  shows "grows c (block_item_props g c' el)"
  unfolding block_item_props_def Let_def by (rule grows_intros assms)+

lemma block_item_props_extends [extends_intros]:
  assumes "iface_ok g" and "extends c c'" and "indent_level c \<noteq> - 1"
  shows "extends c (block_item_props g c' el)"
  unfolding block_item_props_def Let_def by (rule extends_intros assms)+

lemma block_item_children_grows [grows_intros]:
  assumes "iface_ok g" and "grows c c'"
  shows "grows c (block_item_children g c' el)"
  unfolding block_item_children_def Let_def by (rule grows_intros assms)+

lemma block_item_children_extends [extends_intros]:
  assumes "iface_ok g" and "extends c c'" and "indent_level c \<noteq> - 1"
  shows "extends c (block_item_children g c' el)"
  unfolding block_item_children_def Let_def by (rule extends_intros assms)+

lemma block_item_close_grows [grows_intros]:
  assumes "grows c c'"
  shows "grows c (block_item_close c' el)"
  unfolding block_item_close_def Let_def by (rule grows_intros assms)+

lemma block_item_close_extends [extends_intros]:
  assumes "extends c c'"
  shows "extends c (block_item_close c' el)"
  unfolding block_item_close_def Let_def by (rule extends_intros assms)+

lemma gen_block_item_grows [grows_intros]:
  assumes "iface_ok g" and "grows c c'"
  shows "grows c (gen_block_item g c' el)"
  unfolding gen_block_item_def Let_def by (rule grows_intros assms)+

lemma gen_block_item_extends [extends_intros]:
  assumes "iface_ok g" and "extends c c'" and "indent_level c \<noteq> - 1"
  shows "extends c (gen_block_item g c' el)"
  unfolding gen_block_item_def Let_def by (rule extends_intros assms)+

lemma generate_for_item_grows [grows_intros]:
  assumes "iface_ok g" and "grows c c'"
  shows "grows c (generate_for_item g c' n b)"
proof (cases n)
  case (Element el)
  then show ?thesis
    by (simp only: generate_for_item_def Let_def template_child.case) (intro grows_intros assms)
qed (simp_all add: generate_for_item_def grows_intros assms)

lemma generate_for_item_extends [extends_intros]:
  assumes "iface_ok g" and "extends c c'" and "indent_level c \<noteq> - 1"
  shows "extends c (generate_for_item g c' n b)"
proof (cases n)
  case (Element el)
  then show ?thesis
    by (simp only: generate_for_item_def Let_def template_child.case) (rule extends_intros assms)+
qed (simp_all add: generate_for_item_def extends_intros assms)

section \<open>Output of the generators\<close>

lemma for_prelude_code:
  "code (for_prelude ctx b) =
     code ctx @ ''('' @ helper_alias ctx OpenBlock @ (if b then ''(), '' else ''(true), '') @
     helper_alias ctx CreateElementBlock @ ''('' @ helper_alias ctx Fragment @ '', null, '' @
     helper_alias ctx RenderList @ ''(''"
  by (simp add: for_prelude_def Let_def)

lemma for_prelude_helpers:
  "used_helpers (for_prelude ctx b) =
     insert OpenBlock (insert CreateElementBlock (insert Fragment (insert RenderList (used_helpers ctx))))"
  by (auto simp add: for_prelude_def Let_def)

lemma for_prelude_extends: "extends ctx (for_prelude ctx b)"
  unfolding for_prelude_def Let_def by (rule extends_intros)+

lemma for_params_grows [grows_intros]:
  assumes "iface_ok g" and "grows c c'"
  shows "grows c (for_params g c' f)"
  unfolding for_params_def Let_def by (rule grows_intros assms)+

lemma for_params_extends [extends_intros]:
  assumes "iface_ok g" and "extends c c'"
  shows "extends c (for_params g c' f)"
  unfolding for_params_def Let_def by (rule extends_intros assms)+

lemma for_body_grows [grows_intros]:
  assumes "iface_ok g" and "grows c c'"
  shows "grows c (for_body g c' f b)"
  unfolding for_body_def Let_def by (rule grows_intros assms)+

lemma for_body_extends [extends_intros]:
  assumes "iface_ok g" and "extends c c'" and "indent_level c \<noteq> - 1"
    and "indent_level (indent c') \<noteq> - 1"
  shows "extends c (for_body g c' f b)"
  unfolding for_body_def Let_def by (rule extends_intros assms)+

lemma for_close_code:
  "code (for_close c flag) =
     code c @ ''}), '' @ dec_string flag @ '' /* '' @ fragment_flag_name flag @ '' */))''"
  by (simp add: for_close_def Let_def del: fragment_flag_name.simps)

lemma for_close_grows [grows_intros]: "grows c c' \<Longrightarrow> grows c (for_close c' flag)"
  unfolding for_close_def Let_def by (rule grows_intros)+

lemma for_close_extends [extends_intros]: "extends c c' \<Longrightarrow> extends c (for_close c' flag)"
  unfolding for_close_def Let_def by (rule extends_intros)+

text \<open>C3: \<open>generate_for\<close> opens a fragment block, tracked (\<open>openBlock(true)\<close>) unless
  the list is stable, around \<open>createElementBlock(Fragment, null, renderList(\<close>, and
  closes it with the list's fragment flag and that flag's name in a comment.\<close>

theorem generate_for_shape:
  assumes "iface_ok g"
  shows "\<exists>mid. code (generate_for g ctx f) =
     code ctx @ ''('' @ helper_alias ctx OpenBlock @
     (if is_numeric_source (source f) then ''(), '' else ''(true), '') @
     helper_alias ctx CreateElementBlock @ ''('' @ helper_alias ctx Fragment @ '', null, '' @
     helper_alias ctx RenderList @ ''('' @ mid @
     ''}), '' @ dec_string (for_fragment_flag f) @ '' /* '' @
     fragment_flag_name (for_fragment_flag f) @ '' */))''"
proof -
  let ?b = "is_numeric_source (source f)"
  let ?p = "for_prelude ctx ?b"
  have "grows ?p (for_body g (for_params g ?p f) f ?b)"
    by (rule grows_intros assms)+
  then obtain s where s: "code (for_body g (for_params g ?p f) f ?b) = code ?p @ s"
    by (blast dest: grows_code)
  show ?thesis
    by (rule exI [of _ s])
      (simp add: generate_for_phases for_close_code for_prelude_code s del: fragment_flag_name.simps)
qed

text \<open>C23: when the \<open>u32\<close> indentation level leaves room for the two nested levels
  \<open>generate_for\<close> may open, the generator restores the level, only appends to the
  buffer and keeps every helper already in use.\<close>

theorem generate_for_extends:
  assumes "iface_ok g" and "unat (indent_level ctx) + 2 < 2 ^ 32"
  shows "extends ctx (generate_for g ctx f)"
proof -
  let ?b = "is_numeric_source (source f)"
  let ?q = "for_params g (for_prelude ctx ?b) f"
  have ctx_ok: "indent_level ctx \<noteq> - 1"
    using assms(2) by (intro unat_bound_not_max) simp
  have q: "extends ctx ?q"
    by (rule extends_intros for_prelude_extends assms)+
  then have "indent_level (indent ?q) = indent_level ctx + 1"
    by (simp add: extends_def)
  moreover have "unat (indent_level ctx + 1) + 1 < 2 ^ 32"
    using assms(2) ctx_ok by (simp add: word_suc_unat)
  then have "indent_level ctx + 1 \<noteq> - 1"
    by (intro unat_bound_not_max) simp
  ultimately have "indent_level (indent ?q) \<noteq> - 1"
    by simp
  with q ctx_ok assms(1) have "extends ctx (for_body g ?q f ?b)"
    by (intro for_body_extends)
  then show ?thesis
    by (simp add: generate_for_phases for_close_extends)
qed

text \<open>C22: after \<open>generate_for\<close> the helpers \<open>openBlock\<close>, \<open>createElementBlock\<close>,
  \<open>Fragment\<close> and \<open>renderList\<close> that its output calls are recorded for the
  import preamble, together with every helper recorded before.\<close>

theorem generate_for_helpers:
  assumes "iface_ok g"
  shows "insert OpenBlock (insert CreateElementBlock (insert Fragment (insert RenderList (used_helpers ctx))))
         \<subseteq> used_helpers (generate_for g ctx f)"
proof -
  let ?b = "is_numeric_source (source f)"
  let ?p = "for_prelude ctx ?b"
  have "grows ?p (for_close (for_body g (for_params g ?p f) f ?b) (for_fragment_flag f))"
    by (rule grows_intros assms)+
  then show ?thesis
    by (simp add: generate_for_phases grows_def for_prelude_helpers)
qed

lemma vshow_open_code:
  "code (vshow_open c b) = code c @ (if b then helper_alias c WithDirectives @ ''('' else [])"
  by (simp add: vshow_open_def Let_def)

lemma vshow_open_alias [simp]: "helper_alias (vshow_open c b) = helper_alias c"
  by (simp add: vshow_open_def Let_def)

lemma gen_stable_item_code:
  assumes "iface_ok g"
  shows "\<exists>s. code (gen_stable_item g c el) =
    code c @ helper_alias c CreateElementVNode @ ''(\"'' @ tag el @ ''\"'' @ s"
proof -
  let ?c0 = "push (push (push (push (use_helper c CreateElementVNode)
    (helper (use_helper c CreateElementVNode) CreateElementVNode)) ''(\"'') (tag el)) ''\"''"
  have "grows ?c0 (gen_stable_item g c el)"
    unfolding gen_stable_item_def Let_def by (rule grows_intros assms)+
  then obtain s where "code (gen_stable_item g c el) = code ?c0 @ s"
    by (blast dest: grows_code)
  then show ?thesis by simp
qed

lemma block_item_head_code:
  "code (block_item_head c el) = code c @ ''('' @ helper_alias c OpenBlock @ ''(), '' @
     (if tag_type el = ComponentTag
      then helper_alias c CreateBlock @ ''(_component_'' @ str_replace_char CHR ''-'' ''_'' (tag el)
      else if tag_type el = TemplateTag then helper_alias c CreateElementBlock @ ''('' @ helper_alias c Fragment
      else helper_alias c CreateElementBlock @ ''(\"'' @ tag el @ ''\"'')"
  by (simp add: block_item_head_def Let_def)

lemma block_item_close_code:
  "code (block_item_close c el) = code c @
     (if tag_type el = TemplateTag then '', 64 /* STABLE_FRAGMENT */''
      else if list_ex is_interpolation (children el) then '', 1 /* TEXT */'' else []) @ ''))''"
  by (simp add: block_item_close_def Let_def)

text \<open>A block item is its head, then what the props and children append, then its
  patch flag and closing.\<close>

lemma gen_block_item_split:
  assumes "iface_ok g"
  obtains mid where "code (gen_block_item g c el) = code (block_item_head c el) @ mid @
     (if tag_type el = TemplateTag then '', 64 /* STABLE_FRAGMENT */''
      else if list_ex is_interpolation (children el) then '', 1 /* TEXT */'' else []) @ ''))''"
proof -
  let ?h = "block_item_head c el"
  have "grows ?h (block_item_children g (block_item_props g ?h el) el)"
    by (rule grows_intros grows_refl assms)+
  then obtain mid where "code (block_item_children g (block_item_props g ?h el) el) = code ?h @ mid"
    by (blast dest: grows_code)
  then show ?thesis
    by (intro that [of mid]) (simp add: gen_block_item_def block_item_close_code)
qed

lemma gen_block_item_code:
  assumes "iface_ok g"
  shows "\<exists>s. code (gen_block_item g c el) = code c @ ''('' @ helper_alias c OpenBlock @ ''(), '' @ s"
proof -
  obtain mid where "code (gen_block_item g c el) = code (block_item_head c el) @ mid @
     (if tag_type el = TemplateTag then '', 64 /* STABLE_FRAGMENT */''
      else if list_ex is_interpolation (children el) then '', 1 /* TEXT */'' else []) @ ''))''"
    using gen_block_item_split [OF assms] .
  then show ?thesis
    by (simp add: block_item_head_code)
qed

lemma gen_block_item_head_grows:
  assumes "iface_ok g"
  shows "grows (block_item_head c el) (gen_block_item g c el)"
  unfolding gen_block_item_def Let_def by (rule grows_intros grows_refl assms)+

lemma block_item_head_helpers:
  "tag_type el = ComponentTag \<Longrightarrow> CreateBlock \<in> used_helpers (block_item_head c el)"
  by (simp add: block_item_head_def Let_def)

lemma generate_for_item_plain:
  "\<not> has_vshow_directive g el \<Longrightarrow> generate_for_item g c (Element el) False = gen_block_item g c el"
  by (simp add: generate_for_item_def vshow_open_def)

lemma generate_for_item_element:
  "generate_for_item g c (Element el) b =
     (let c' = (if b then gen_stable_item g else gen_block_item g) (vshow_open c (has_vshow_directive g el)) el
      in if has_vshow_directive g el then gen_vshow_closing g c' el else c')"
  by (simp add: generate_for_item_def Let_def)

lemma vshow_closing_code:
  "iface_ok g \<Longrightarrow> \<exists>s. code (gen_vshow_closing g c el) = code c @ s"
  using iface_ok_vshow_closing_grows [OF _ grows_refl] grows_code by blast

text \<open>C4: an element item of a stable list is emitted as a plain
  \<open>createElementVNode\<close> call (inside \<open>withDirectives(\<close> when it has \<open>v-show\<close>),
  without a block of its own.\<close>

theorem stable_item_unblocked:
  assumes "iface_ok g"
  shows "\<exists>rest. code (generate_for_item g ctx (Element el) True) =
    code ctx @ (if has_vshow_directive g el then helper_alias ctx WithDirectives @ ''('' else []) @
    helper_alias ctx CreateElementVNode @ ''(\"'' @ tag el @ ''\"'' @ rest"
proof -
  let ?v = "vshow_open ctx (has_vshow_directive g el)"
  obtain s where s: "code (gen_stable_item g ?v el) =
      code ?v @ helper_alias ?v CreateElementVNode @ ''(\"'' @ tag el @ ''\"'' @ s"
    using gen_stable_item_code [OF assms] by blast
  obtain t where t: "code (gen_vshow_closing g (gen_stable_item g ?v el) el) =
      code (gen_stable_item g ?v el) @ t"
    using vshow_closing_code [OF assms] by blast
  from s t show ?thesis
    by (cases "has_vshow_directive g el") (simp_all add: generate_for_item_element vshow_open_code)
qed

text \<open>C5: an element item of a keyed or unkeyed list is wrapped in its own block:
  its code starts with \<open>(openBlock(), \<close> (after \<open>withDirectives(\<close> when it has
  \<open>v-show\<close>).\<close>

theorem block_item_opens_block:
  assumes "iface_ok g"
  shows "\<exists>rest. code (generate_for_item g ctx (Element el) False) =
    code ctx @ (if has_vshow_directive g el then helper_alias ctx WithDirectives @ ''('' else []) @
    ''('' @ helper_alias ctx OpenBlock @ ''(), '' @ rest"
proof -
  let ?v = "vshow_open ctx (has_vshow_directive g el)"
  obtain s where s: "code (gen_block_item g ?v el) =
      code ?v @ ''('' @ helper_alias ?v OpenBlock @ ''(), '' @ s"
    using gen_block_item_code [OF assms] by blast
  obtain t where t: "code (gen_vshow_closing g (gen_block_item g ?v el) el) =
      code (gen_block_item g ?v el) @ t"
    using vshow_closing_code [OF assms] by blast
  from s t show ?thesis
    by (cases "has_vshow_directive g el") (simp_all add: generate_for_item_element vshow_open_code)
qed

text \<open>C7: a component item of a keyed or unkeyed list (without \<open>v-show\<close>) is its
  own block created by \<open>createBlock\<close> of the resolved component variable
  \<open>_component_<tag>\<close>, the tag's dashes replaced by underscores so that the name is
  an identifier; \<open>createBlock\<close> is recorded for the import preamble.\<close>

theorem component_item_creates_block:
  assumes "iface_ok g" and "tag_type el = ComponentTag" and "\<not> has_vshow_directive g el"
  shows "(\<exists>rest. code (generate_for_item g ctx (Element el) False) =
      code ctx @ ''('' @ helper_alias ctx OpenBlock @ ''(), '' @ helper_alias ctx CreateBlock @
      ''(_component_'' @ str_replace_char CHR ''-'' ''_'' (tag el) @ rest) \<and>
    CHR ''-'' \<notin> set (str_replace_char CHR ''-'' ''_'' (tag el)) \<and>
    CreateBlock \<in> used_helpers (generate_for_item g ctx (Element el) False)"
proof -
  have gr: "grows (block_item_head ctx el) (gen_block_item g ctx el)"
    using gen_block_item_head_grows [OF assms(1)] .
  then obtain s where s: "code (gen_block_item g ctx el) = code (block_item_head ctx el) @ s"
    by (blast dest: grows_code)
  have "CreateBlock \<in> used_helpers (gen_block_item g ctx el)"
    using gr block_item_head_helpers [OF assms(2)] by (auto simp add: grows_def)
  moreover have "CHR ''-'' \<notin> set (str_replace_char CHR ''-'' ''_'' (tag el))"
    by (rule str_replace_char_absent) simp
  ultimately show ?thesis
    using s assms(2) by (simp add: generate_for_item_plain [OF assms(3)] block_item_head_code)
qed

text \<open>C8: a \<open>template\<close> item of a keyed or unkeyed list (without \<open>v-show\<close>) is a
  fragment block \<open>(openBlock(), createElementBlock(Fragment, ...\<close> closed with the
  patch flag \<open>64 /* STABLE_FRAGMENT */\<close>.\<close>

theorem template_item_fragment_block:
  assumes "iface_ok g" and "tag_type el = TemplateTag" and "\<not> has_vshow_directive g el"
  shows "\<exists>mid. code (generate_for_item g ctx (Element el) False) =
      code ctx @ ''('' @ helper_alias ctx OpenBlock @ ''(), '' @ helper_alias ctx CreateElementBlock @
      ''('' @ helper_alias ctx Fragment @ mid @ '', 64 /* STABLE_FRAGMENT */))''"
proof -
  obtain mid where "code (gen_block_item g ctx el) = code (block_item_head ctx el) @ mid @
     (if tag_type el = TemplateTag then '', 64 /* STABLE_FRAGMENT */''
      else if list_ex is_interpolation (children el) then '', 1 /* TEXT */'' else []) @ ''))''"
    using gen_block_item_split [OF assms(1)] .
  then show ?thesis
    using assms(2) by (simp add: generate_for_item_plain [OF assms(3)] block_item_head_code)
qed

text \<open>C9: in a keyed or unkeyed list a key that \<open>is_simple_key\<close> rejects (a compound
  expression, or a simple one containing a dot such as \<open>item.id\<close>) is written on its
  own line one level deeper, and the closing brace comes back to the item's level. The
  test is the dot only: \<open>item[0]\<close> or \<open>a + b\<close> count as simple and stay inline
  (\<open>bracket_key_is_simple\<close>).\<close>

theorem dotted_key_own_line:
  assumes "iface_ok g" and "get_element_key el = Some key" and "\<not> is_simple_key key"
    and "indent_level ctx \<noteq> - 1"
  shows "\<exists>e. code (block_item_props g ctx el) =
    code ctx @ '', {'' @ [CHR 0x0A] @ concat (replicate (unat (indent_level ctx) + 1) ''  '') @ ''key: '' @ e @
    [CHR 0x0A] @ concat (replicate (unat (indent_level ctx)) ''  '') @ ''}''"
proof -
  let ?c1 = "push (newline (indent (push ctx '', {''))) ''key: ''"
  have "extends ?c1 (gen_expression g ?c1 key)"
    by (rule extends_intros extends_refl assms)+
  then obtain e where e: "code (gen_expression g ?c1 key) = code ?c1 @ e"
    and lv: "indent_level (gen_expression g ?c1 key) = indent_level ctx + 1"
    by (auto simp add: extends_def dest: grows_code)
  have pos: "0 < indent_level ctx + 1"
    using assms(4) by (rule indent_level_succ_pos)
  show ?thesis
    using assms(2,3,4) e lv pos by (simp add: block_item_props_def word_suc_unat)
qed

text \<open>C6: an element item of a stable list without \<open>v-show\<close> whose children include
  an interpolation is closed with the patch flag \<open>1 /* TEXT */\<close>.\<close>

theorem stable_item_text_flag:
  assumes "\<not> has_vshow_directive g el" and "list_ex is_interpolation (children el)"
  shows "\<exists>pre. code (generate_for_item g ctx (Element el) True) = pre @ '', 1 /* TEXT */)''"
  using assms by (simp add: generate_for_item_element vshow_open_def gen_stable_item_def Let_def)

text \<open>C1: the fragment flag is Stable (64) exactly when the source of the list is a
  simple expression made only of ASCII digits; any other character, a sign, a
  decimal point or a compound source gives another flag.\<close>

theorem stable_iff_digit_source:
  "for_fragment_flag f = 64 \<longleftrightarrow> (\<exists>e. source f = Simple e \<and> list_all is_ascii_digit (content e))"
  by (cases "source f") (simp_all add: for_fragment_flag_def fragment_flag_of_def)

text \<open>C2: a list whose source is not a digit literal and one of whose direct child
  elements has a \<open>:key\<close> binding is Keyed (128), whatever its other children are.\<close>

theorem keyed_child_keyed_flag:
  assumes "\<not> is_numeric_source (source f)" and "Element el \<in> set (for_children f)"
    and "get_element_key el = Some k"
  shows "for_fragment_flag f = 128"
proof -
  have "children_have_key (for_children f)"
    unfolding children_have_key_def list_ex_iff using assms(2,3) by (intro bexI [of _ "Element el"]) simp_all
  with assms(1) show ?thesis
    by (simp add: for_fragment_flag_def fragment_flag_of_def)
qed

text \<open>The one-line test only looks for a dot: an index expression counts as a simple
  key.\<close>

lemma bracket_key_is_simple: "is_simple_key (simple_exp ''item[0]'' False)"
  by (simp add: simple_exp_def)

lemma empty_source_stable:
  "for_fragment_flag (ForNode (simple_exp [] False) v k i cs) = 64"
  by (simp add: for_fragment_flag_def fragment_flag_of_def simple_exp_def)

lemma dynamic_key_arg_is_key:
  "get_element_key (ElementNode t ty [directive ''bind'' (Some (simple_exp ''key'' False)) (Some e)] cs) = Some e"
  by (simp add: get_element_key_def directive_def simple_exp_def)


section \<open>Witnesses\<close>

theorem generate_for_shape_witness:
  "iface_ok example_iface \<and>
   (\<exists>mid. code (generate_for example_iface (codegen_context_new default_codegen_options) ex_stable_for) =
     ''(_openBlock(), _createElementBlock(_Fragment, null, _renderList('' @ mid @
     ''}), 64 /* STABLE_FRAGMENT */))'')"
proof -
  have st: "is_numeric_source (source ex_stable_for)"
    by (simp add: ex_stable_for_def simple_exp_def is_ascii_digit_def)
  have fl: "for_fragment_flag ex_stable_for = 64"
    by (simp add: for_fragment_flag_def fragment_flag_of_def st)
  have ds: "dec_string 64 = ''64''"
    by (simp add: dec_string_big)
  show ?thesis
    using iface_ok_example
      generate_for_shape [OF iface_ok_example, of "codegen_context_new default_codegen_options" ex_stable_for]
    by (simp add: st fl ds)
qed

theorem generate_for_extends_witness:
  "iface_ok example_iface \<and> unat (indent_level (codegen_context_new default_codegen_options)) + 2 < 2 ^ 32 \<and>
   extends (codegen_context_new default_codegen_options)
     (generate_for example_iface (codegen_context_new default_codegen_options) ex_keyed_for)"
  using iface_ok_example
    generate_for_extends [OF iface_ok_example, of "codegen_context_new default_codegen_options" ex_keyed_for]
  by simp

theorem generate_for_helpers_witness:
  "iface_ok example_iface \<and>
   {OpenBlock, CreateElementBlock, Fragment, RenderList} \<subseteq>
     used_helpers (generate_for example_iface (codegen_context_new default_codegen_options) ex_keyed_for)"
  using iface_ok_example
    generate_for_helpers [OF iface_ok_example, of "codegen_context_new default_codegen_options" ex_keyed_for]
  by simp

theorem stable_item_unblocked_witness:
  "iface_ok example_iface \<and>
   (\<exists>rest. code (generate_for_item example_iface (codegen_context_new default_codegen_options)
      (Element ex_span) True) = ''_createElementVNode(\"span\"'' @ rest)"
  using iface_ok_example
    stable_item_unblocked [OF iface_ok_example, of "codegen_context_new default_codegen_options" ex_span]
  by (simp add: ex_span_def example_iface_def example_has_vshow_def)

theorem block_item_opens_block_witness:
  "iface_ok example_iface \<and>
   (\<exists>rest. code (generate_for_item example_iface (codegen_context_new default_codegen_options)
      (Element ex_li) False) = ''(_openBlock(), '' @ rest)"
  using iface_ok_example
    block_item_opens_block [OF iface_ok_example, of "codegen_context_new default_codegen_options" ex_li]
  by (simp add: ex_li_def example_iface_def example_has_vshow_def directive_def)

theorem stable_item_text_flag_witness:
  "\<not> has_vshow_directive example_iface ex_span \<and> list_ex is_interpolation (children ex_span) \<and>
   (\<exists>pre. code (generate_for_item example_iface (codegen_context_new default_codegen_options)
      (Element ex_span) True) = pre @ '', 1 /* TEXT */)'')"
proof -
  have h1: "\<not> has_vshow_directive example_iface ex_span"
    by (simp add: ex_span_def example_iface_def example_has_vshow_def)
  have h2: "list_ex is_interpolation (children ex_span)"
    by (simp add: ex_span_def)
  show ?thesis
    using h1 h2 stable_item_text_flag [OF h1 h2] by blast
qed

theorem keyed_child_keyed_flag_witness:
  "\<not> is_numeric_source (source ex_keyed_for) \<and> Element ex_li \<in> set (for_children ex_keyed_for) \<and>
   get_element_key ex_li = Some (simple_exp ''item.id'' False) \<and> for_fragment_flag ex_keyed_for = 128"
proof -
  have h1: "\<not> is_numeric_source (source ex_keyed_for)"
    by (simp add: ex_keyed_for_def simple_exp_def is_ascii_digit_def)
  have h2: "Element ex_li \<in> set (for_children ex_keyed_for)"
    by (simp add: ex_keyed_for_def)
  have h3: "get_element_key ex_li = Some (simple_exp ''item.id'' False)"
    by (simp add: ex_li_def get_element_key_def directive_def simple_exp_def)
  show ?thesis
    using h1 h2 h3 keyed_child_keyed_flag [OF h1 h2 h3] by blast
qed

theorem component_item_creates_block_witness:
  "iface_ok example_iface \<and> tag_type ex_comp = ComponentTag \<and> \<not> has_vshow_directive example_iface ex_comp \<and>
   (\<exists>rest. code (generate_for_item example_iface (codegen_context_new default_codegen_options)
      (Element ex_comp) False) = ''(_openBlock(), _createBlock(_component_my_comp'' @ rest)"
proof -
  have h2: "tag_type ex_comp = ComponentTag"
    by (simp add: ex_comp_def)
  have h3: "\<not> has_vshow_directive example_iface ex_comp"
    by (simp add: ex_comp_def example_iface_def example_has_vshow_def)
  show ?thesis
    using iface_ok_example h2 h3
      component_item_creates_block [OF iface_ok_example h2 h3, of "codegen_context_new default_codegen_options"]
    by (simp add: ex_comp_def)
qed

theorem template_item_fragment_block_witness:
  "iface_ok example_iface \<and> tag_type ex_tpl = TemplateTag \<and> \<not> has_vshow_directive example_iface ex_tpl \<and>
   (\<exists>mid. code (generate_for_item example_iface (codegen_context_new default_codegen_options)
      (Element ex_tpl) False) = ''(_openBlock(), _createElementBlock(_Fragment'' @ mid @
      '', 64 /* STABLE_FRAGMENT */))'')"
proof -
  have h2: "tag_type ex_tpl = TemplateTag"
    by (simp add: ex_tpl_def)
  have h3: "\<not> has_vshow_directive example_iface ex_tpl"
    by (simp add: ex_tpl_def example_iface_def example_has_vshow_def)
  show ?thesis
    using iface_ok_example h2 h3
      template_item_fragment_block [OF iface_ok_example h2 h3, of "codegen_context_new default_codegen_options"]
    by simp
qed

theorem dotted_key_own_line_witness:
  "iface_ok example_iface \<and> get_element_key ex_dotted = Some (simple_exp ''item.id'' False) \<and>
   \<not> is_simple_key (simple_exp ''item.id'' False) \<and>
   indent_level (codegen_context_new default_codegen_options) \<noteq> - 1 \<and>
   (\<exists>e. code (block_item_props example_iface (codegen_context_new default_codegen_options) ex_dotted) =
      '', {'' @ [CHR 0x0A] @ ''  key: '' @ e @ [CHR 0x0A] @ ''}'')"
proof -
  have h2: "get_element_key ex_dotted = Some (simple_exp ''item.id'' False)"
    by (simp add: ex_dotted_def get_element_key_def directive_def simple_exp_def)
  have h3: "\<not> is_simple_key (simple_exp ''item.id'' False)"
    by (simp add: simple_exp_def)
  have h4: "indent_level (codegen_context_new default_codegen_options) \<noteq> - 1"
    by simp
  show ?thesis
    using iface_ok_example h2 h3 h4
      dotted_key_own_line [OF iface_ok_example h2 h3 h4]
    by simp
qed
end
