(* ===== verification/TransformContext.thy ===== *)
theory TransformContext
  imports CodegenContext
begin

text \<open>
  The transform context of the transform pass (\<open>crate::transform::TransformContext\<close>,
  not among the sources; specification, sections 4.1 and 7). Its state, as far as the
  modelled transforms use it: the set of runtime helpers the generated code will need
  (\<open>helper\<close> records one, idempotently, for the import preamble); the slot-parameter
  scope, a stack of identifiers pushed by \<open>enter\<close> and popped by \<open>leave\<close>; and the
  ordered list of non-fatal diagnostics.
\<close>

text \<open>Non-fatal diagnostics (section 7): a structural one for a violated AST
  invariant, a semantic one (a warning) for a directive without meaning in its place.\<close>

datatype diagnostic = Structural string | Semantic string

record transform_context =
  tc_helpers :: "runtime_helper set"
  tc_scope :: "string list"
  tc_diags :: "diagnostic list"

definition transform_context_new :: transform_context where
  "transform_context_new = \<lparr>tc_helpers = {}, tc_scope = [], tc_diags = []\<rparr>"

definition tc_helper :: "transform_context \<Rightarrow> runtime_helper \<Rightarrow> transform_context" where
  "tc_helper ctx h = ctx\<lparr>tc_helpers := insert h (tc_helpers ctx)\<rparr>"

text \<open>\<open>enter\<close> pushes the parameters of a scope, \<open>leave\<close> pops as many names as the
  matching \<open>enter\<close> pushed.\<close>

definition tc_enter :: "transform_context \<Rightarrow> string list \<Rightarrow> transform_context" where
  "tc_enter ctx ps = ctx\<lparr>tc_scope := ps @ tc_scope ctx\<rparr>"

definition tc_leave :: "transform_context \<Rightarrow> string list \<Rightarrow> transform_context" where
  "tc_leave ctx ps = ctx\<lparr>tc_scope := drop (length ps) (tc_scope ctx)\<rparr>"

definition tc_report :: "transform_context \<Rightarrow> diagnostic \<Rightarrow> transform_context" where
  "tc_report ctx d = ctx\<lparr>tc_diags := tc_diags ctx @ [d]\<rparr>"

lemma tc_helper_simps [simp]:
  "tc_helpers (tc_helper ctx h) = insert h (tc_helpers ctx)"
  "tc_scope (tc_helper ctx h) = tc_scope ctx"
  "tc_diags (tc_helper ctx h) = tc_diags ctx"
  by (simp_all add: tc_helper_def)

lemma tc_enter_simps [simp]:
  "tc_helpers (tc_enter ctx ps) = tc_helpers ctx"
  "tc_scope (tc_enter ctx ps) = ps @ tc_scope ctx"
  "tc_diags (tc_enter ctx ps) = tc_diags ctx"
  by (simp_all add: tc_enter_def)

lemma tc_leave_simps [simp]:
  "tc_helpers (tc_leave ctx ps) = tc_helpers ctx"
  "tc_scope (tc_leave ctx ps) = drop (length ps) (tc_scope ctx)"
  "tc_diags (tc_leave ctx ps) = tc_diags ctx"
  by (simp_all add: tc_leave_def)

lemma tc_report_simps [simp]:
  "tc_helpers (tc_report ctx d) = tc_helpers ctx"
  "tc_scope (tc_report ctx d) = tc_scope ctx"
  "tc_diags (tc_report ctx d) = tc_diags ctx @ [d]"
  by (simp_all add: tc_report_def)

lemma tc_helper_idem: "tc_helper (tc_helper ctx h) h = tc_helper ctx h"
  by (simp add: tc_helper_def)

text \<open>Leaving restores the scope exactly, also when an inner parameter shadows an
  outer one (unlike the codegen context's set, \<open>nested_shadow_lost\<close>).\<close>

lemma tc_leave_enter: "tc_leave (tc_enter ctx ps) ps = ctx"
  by (simp add: tc_leave_def tc_enter_def)

end
