(* ===== verification/VSlot.thy ===== *)
theory VSlot
  imports TransformContext
begin

text \<open>
  The \<open>v-slot\<close> transform of \<open>src/crates/vue_compiler_core/src/transforms/v_slot.rs\<close>:
  recognising slot directives, the name of a slot (static content, or the raw source
  of a dynamic argument), its props expression, the slot-outlet transform for
  \<open><slot>\<close> elements, and \<open>collect_slots\<close>, which lists the named slots a
  component receives from its \<open><template v-slot>\<close> children and adds an implicit
  default slot for the remaining children.
\<close>

section \<open>Slot directives\<close>

definition is_slot_directive :: "prop_node \<Rightarrow> bool" where
  "is_slot_directive p = (case p of Directive dir \<Rightarrow> dir_name dir = ''slot'' | _ \<Rightarrow> False)"

definition has_v_slot :: "element_node \<Rightarrow> bool" where
  "has_v_slot el = list_ex is_slot_directive (props el)"

text \<open>The source text of an expression's location.\<close>

fun expression_source :: "expression_node \<Rightarrow> string" where
  "expression_source (Simple exp) = loc_source (sloc exp)"
| "expression_source (Compound exp) = loc_source (cloc exp)"

definition get_slot_name :: "directive_node \<Rightarrow> string" where
  "get_slot_name dir =
     (case dir_arg dir of
        Some (Simple exp) \<Rightarrow> if is_static exp then content exp else loc_source (sloc exp)
      | Some (Compound exp) \<Rightarrow> loc_source (cloc exp)
      | None \<Rightarrow> ''default'')"

definition get_slot_props_string :: "directive_node \<Rightarrow> string option" where
  "get_slot_props_string dir =
     map_option (\<lambda>exp. case exp of Simple s \<Rightarrow> content s | Compound c \<Rightarrow> loc_source (cloc c))
       (dir_exp dir)"

definition is_dynamic_slot :: "directive_node \<Rightarrow> bool" where
  "is_dynamic_slot dir =
     (case dir_arg dir of
        Some (Simple exp) \<Rightarrow> \<not> is_static exp
      | Some (Compound _) \<Rightarrow> True
      | None \<Rightarrow> False)"

section \<open>Slot outlets\<close>

record slot_outlet_info =
  outlet_name :: string
  outlet_props_expr :: "string option"
  has_fallback :: bool

text \<open>The helper is recorded before the tag is checked.\<close>

definition transform_slot_outlet ::
  "transform_context \<Rightarrow> directive_node \<Rightarrow> element_node \<Rightarrow> transform_context \<times> slot_outlet_info option" where
  "transform_slot_outlet ctx dir el =
     (let ctx = tc_helper ctx RenderSlot
      in if tag el \<noteq> ''slot'' then (ctx, None)
         else (ctx, Some \<lparr>outlet_name = get_slot_name dir,
                          outlet_props_expr = get_slot_props_string dir,
                          has_fallback = children el \<noteq> []\<rparr>))"

section \<open>Slots of a component\<close>

record slot_info =
  slot_name :: string
  params_expr :: "string option"
  slot_is_dynamic :: bool

definition slot_info_of :: "directive_node \<Rightarrow> slot_info" where
  "slot_info_of dir =
     \<lparr>slot_name = get_slot_name dir, params_expr = get_slot_props_string dir,
      slot_is_dynamic = is_dynamic_slot dir\<rparr>"

text \<open>The first loop of \<open>collect_slots\<close>: every slot directive of every child
  element whose tag is \<open>template\<close>, in document order.\<close>

definition prop_slots :: "prop_node \<Rightarrow> slot_info list" where
  "prop_slots p =
     (case p of Directive dir \<Rightarrow> if dir_name dir = ''slot'' then [slot_info_of dir] else []
              | _ \<Rightarrow> [])"

definition child_slots :: "template_child \<Rightarrow> slot_info list" where
  "child_slots child =
     (case child of
        Element child_el \<Rightarrow> if tag child_el = ''template'' then concat (map prop_slots (props child_el)) else []
      | _ \<Rightarrow> [])"

definition template_slots :: "element_node \<Rightarrow> slot_info list" where
  "template_slots el = concat (map child_slots (children el))"

text \<open>Any child other than a \<open>template\<close> element with a slot directive.\<close>

definition has_non_slot_children :: "element_node \<Rightarrow> bool" where
  "has_non_slot_children el =
     list_ex (\<lambda>child. case child of
                        Element c \<Rightarrow> \<not> (tag c = ''template'' \<and> has_v_slot c)
                      | _ \<Rightarrow> True) (children el)"

definition default_slot_info :: slot_info where
  "default_slot_info = \<lparr>slot_name = ''default'', params_expr = None, slot_is_dynamic = False\<rparr>"

definition collect_slots :: "element_node \<Rightarrow> slot_info list" where
  "collect_slots el =
     (let slots = template_slots el
      in if has_non_slot_children el \<and> \<not> list_ex (\<lambda>s. slot_name s = ''default'') slots
         then slots @ [default_slot_info] else slots)"

definition has_dynamic_slots :: "element_node \<Rightarrow> bool" where
  "has_dynamic_slots el =
     list_ex (\<lambda>child. case child of
                        Element child_el \<Rightarrow>
                          tag child_el = ''template'' \<and>
                          list_ex (\<lambda>p. case p of
                                        Directive dir \<Rightarrow> dir_name dir = ''slot'' \<and> is_dynamic_slot dir
                                      | _ \<Rightarrow> False) (props child_el)
                      | _ \<Rightarrow> False) (children el)"

section \<open>Example templates\<close>

text \<open>\<open><Comp><template #header>H</template><template #footer>F</template></Comp>\<close>.\<close>

definition slot_template :: "string \<Rightarrow> template_child list \<Rightarrow> template_child" where
  "slot_template name cs =
     Element (ElementNode ''template'' TemplateTag [directive ''slot'' (Some (simple_exp name True)) None] cs)"

definition ex_header_footer :: element_node where
  "ex_header_footer = ElementNode ''Comp'' ComponentTag []
     [slot_template ''header'' [Text ''H''], slot_template ''footer'' [Text ''F'']]"

text \<open>\<open><template #[name]>\<close> with the dynamic argument \<open>"a" + "b"\<close>, whose
  content has been rewritten by the expression transform.\<close>

definition ex_dynamic_slot_dir :: directive_node where
  "ex_dynamic_slot_dir =
     \<lparr>dir_name = ''slot'',
      dir_arg = Some (Compound \<lparr>cchildren = [CString ''\"a\"'', CString '' + '', CString ''\"b\"''],
                                cloc = \<lparr>loc_source = ''\"a\" + \"b\"''\<rparr>\<rparr>),
      dir_exp = None, dir_modifiers = []\<rparr>"

section \<open>The module's unit tests\<close>

text \<open>The three tests of the module (\<open>mod tests\<close>), each as the conjunction of its
  assertions. The markup parser is not among the sources: its result is written as
  the AST it produces for the test's template, the root's first child. A test whose
  \<open>if let\<close> does not match asserts nothing.\<close>

definition test_has_v_slot :: bool where
  "test_has_v_slot =
     (case [slot_template ''header'' [Text ''content'']] ! 0 of
        Element el \<Rightarrow> has_v_slot el
      | _ \<Rightarrow> True)"

definition test_default_slot_name :: bool where
  "test_default_slot_name =
     (let dir = \<lparr>dir_name = ''slot'', dir_arg = None, dir_exp = None, dir_modifiers = []\<rparr>
      in get_slot_name dir = ''default'')"

definition test_collect_slots :: bool where
  "test_collect_slots =
     (case [Element ex_header_footer] ! 0 of
        Element el \<Rightarrow>
          (let slots = collect_slots el
           in length slots = 2 \<and> list_ex (\<lambda>s. slot_name s = ''header'') slots \<and>
              list_ex (\<lambda>s. slot_name s = ''footer'') slots)
      | _ \<Rightarrow> True)"

section \<open>Properties\<close>

lemma slot_info_of_simps [simp]:
  "slot_name (slot_info_of d) = get_slot_name d"
  "params_expr (slot_info_of d) = get_slot_props_string d"
  "slot_is_dynamic (slot_info_of d) = is_dynamic_slot d"
  by (simp_all add: slot_info_of_def)

lemma default_slot_info_simps [simp]:
  "slot_name default_slot_info = ''default''"
  "slot_is_dynamic default_slot_info = False"
  by (simp_all add: default_slot_info_def)

lemma collect_slots_cases:
  "collect_slots el =
     template_slots el @
     (if has_non_slot_children el \<and> ''default'' \<notin> slot_name ` set (template_slots el)
      then [default_slot_info] else [])"
  by (auto simp add: collect_slots_def Let_def list_ex_iff image_iff)

text \<open>C10: the name of a slot with a dynamic argument is the raw source text of the
  argument, not its (possibly \<open>_ctx.\<close>-prefixed) content, so re-reading the emitted
  name expression gives back what the template author wrote.\<close>

theorem dynamic_slot_name_raw:
  assumes "is_dynamic_slot d" and "dir_arg d = Some a"
  shows "get_slot_name d = expression_source a"
  using assms by (cases a) (simp_all add: get_slot_name_def is_dynamic_slot_def)

theorem dynamic_slot_name_raw_witness:
  "is_dynamic_slot ex_dynamic_slot_dir \<and>
   dir_arg ex_dynamic_slot_dir = Some (Compound \<lparr>cchildren = [CString ''\"a\"'', CString '' + '', CString ''\"b\"''],
                                cloc = \<lparr>loc_source = ''\"a\" + \"b\"''\<rparr>\<rparr>) \<and>
   get_slot_name ex_dynamic_slot_dir = ''\"a\" + \"b\"''"
proof -
  have h1: "is_dynamic_slot ex_dynamic_slot_dir"
    by (simp add: ex_dynamic_slot_dir_def is_dynamic_slot_def)
  have h2: "dir_arg ex_dynamic_slot_dir = Some (Compound \<lparr>cchildren = [CString ''\"a\"'', CString '' + '', CString ''\"b\"''],
                                cloc = \<lparr>loc_source = ''\"a\" + \"b\"''\<rparr>\<rparr>)"
    by (simp add: ex_dynamic_slot_dir_def)
  show ?thesis
    using h1 h2 dynamic_slot_name_raw [OF h1 h2] by simp
qed

text \<open>C11: the collected slots contain a slot named \<open>default\<close> exactly when a
  \<open><template>\<close> child declares one or the component has a child that is not a
  \<open><template>\<close> with a slot directive; the implicit default is added only then.\<close>

theorem default_slot_iff:
  "''default'' \<in> slot_name ` set (collect_slots el) \<longleftrightarrow>
   ''default'' \<in> slot_name ` set (template_slots el) \<or> has_non_slot_children el"
proof (cases "has_non_slot_children el \<and> ''default'' \<notin> slot_name ` set (template_slots el)")
  case True
  then have "collect_slots el = template_slots el @ [default_slot_info]"
    by (simp add: collect_slots_cases)
  with True show ?thesis by simp
next
  case False
  then have "collect_slots el = template_slots el"
    by (simp add: collect_slots_cases)
  with False show ?thesis by auto
qed

lemma default_count:
  "count_list (map slot_name (collect_slots el)) ''default'' =
     (if has_non_slot_children el \<and> count_list (map slot_name (template_slots el)) ''default'' = 0
      then 1 else count_list (map slot_name (template_slots el)) ''default'')"
  by (simp add: collect_slots_cases count_list_0_iff image_iff)

lemma dynamic_prop_slots:
  "list_ex slot_is_dynamic (prop_slots p) \<longleftrightarrow>
   (case p of Directive dir \<Rightarrow> dir_name dir = ''slot'' \<and> is_dynamic_slot dir | _ \<Rightarrow> False)"
  by (simp add: prop_slots_def split: prop_node.split)

lemma dynamic_child_slots:
  "list_ex slot_is_dynamic (child_slots c) \<longleftrightarrow>
   (case c of Element child_el \<Rightarrow> tag child_el = ''template'' \<and>
      list_ex (\<lambda>p. case p of Directive dir \<Rightarrow> dir_name dir = ''slot'' \<and> is_dynamic_slot dir | _ \<Rightarrow> False)
        (props child_el)
    | _ \<Rightarrow> False)"
  by (simp add: child_slots_def list_ex_concat_map dynamic_prop_slots split: template_child.split)

text \<open>C12: \<open>has_dynamic_slots\<close>, which rescans the children, agrees with the dynamic
  flags of \<open>collect_slots\<close>: a component is dynamic-slotted exactly when one of its
  collected slots has a non-static name.\<close>

theorem has_dynamic_slots_collect:
  "has_dynamic_slots el \<longleftrightarrow> list_ex slot_is_dynamic (collect_slots el)"
  by (simp add: has_dynamic_slots_def collect_slots_cases template_slots_def list_ex_concat_map
      dynamic_child_slots)

text \<open>A comment (or any text, whitespace included) among the children of a component
  counts as content of the default slot.\<close>

lemma comment_forces_default:
  "map slot_name (collect_slots (ElementNode ''Comp'' ComponentTag []
     [Comment '' note '', slot_template ''header'' [Text ''H'']])) = [''header'', ''default'']"
  by (simp add: collect_slots_def template_slots_def slot_template_def
      child_slots_def prop_slots_def directive_def get_slot_name_def simple_exp_def
      has_non_slot_children_def has_v_slot_def is_slot_directive_def)

text \<open>Two templates declaring the same slot name are both collected.\<close>

lemma duplicate_slot_names_kept:
  "map slot_name (collect_slots (ElementNode ''Comp'' ComponentTag []
     [slot_template ''header'' [Text ''A''], slot_template ''header'' [Text ''B'']])) = [''header'', ''header'']"
  by (simp add: collect_slots_def template_slots_def slot_template_def
      child_slots_def prop_slots_def directive_def get_slot_name_def simple_exp_def
      has_non_slot_children_def has_v_slot_def is_slot_directive_def)

text \<open>The model passes the module's three unit tests.\<close>

lemma v_slot_unit_tests: "test_has_v_slot \<and> test_default_slot_name \<and> test_collect_slots"
  by (simp add: test_has_v_slot_def test_default_slot_name_def test_collect_slots_def Let_def
      slot_template_def ex_header_footer_def directive_def simple_exp_def has_v_slot_def
      is_slot_directive_def get_slot_name_def collect_slots_def template_slots_def child_slots_def
      prop_slots_def has_non_slot_children_def)

end
