(* ===== verification/TypeScript.thy ===== *)
theory TypeScript
  imports Prelude
begin

text \<open>
  \<open>transform_typescript_to_js\<close> of
  \<open>src/crates/vize_compiler_sfc/src/compile_script/typescript.rs\<close>: the typed-script
  fragment is parsed, analysed and stripped of its types by the OXC library, and
  printed back with tabs replaced by two spaces; when any stage reports an error the
  original text is returned unchanged. The four OXC stages are external: they enter
  as a record of functions, each returning its error list with its result (the
  transformer's options, \<open>only_remove_type_imports\<close>, are part of the stage).
\<close>

record ('prog, 'sym, 'err) oxc_pipeline =
  oxc_parse :: "string \<Rightarrow> 'err list \<times> 'prog"
  oxc_semantic :: "'prog \<Rightarrow> 'err list \<times> 'sym"
  oxc_transform :: "'sym \<Rightarrow> 'prog \<Rightarrow> 'err list \<times> 'prog"
  oxc_codegen :: "'prog \<Rightarrow> string"

definition tab_char :: char where
  "tab_char = CHR 0x09"

definition transform_typescript_to_js :: "('p, 's, 'e) oxc_pipeline \<Rightarrow> string \<Rightarrow> string" where
  "transform_typescript_to_js oxc code =
     (case oxc_parse oxc code of
        (parse_errors, program) \<Rightarrow>
          if parse_errors \<noteq> [] then code
          else (case oxc_semantic oxc program of
                  (semantic_errors, symbols) \<Rightarrow>
                    if semantic_errors \<noteq> [] then code
                    else (case oxc_transform oxc symbols program of
                            (transform_errors, program') \<Rightarrow>
                              if transform_errors \<noteq> [] then code
                              else str_replace_char tab_char ''  '' (oxc_codegen oxc program'))))"

text \<open>Whether one of the stages reports an error on the fragment.\<close>

definition pipeline_fails :: "('p, 's, 'e) oxc_pipeline \<Rightarrow> string \<Rightarrow> bool" where
  "pipeline_fails oxc code =
     (case oxc_parse oxc code of
        (parse_errors, program) \<Rightarrow>
          parse_errors \<noteq> [] \<or>
          (case oxc_semantic oxc program of
             (semantic_errors, symbols) \<Rightarrow>
               semantic_errors \<noteq> [] \<or> fst (oxc_transform oxc symbols program) \<noteq> []))"

section \<open>Example pipelines\<close>

text \<open>A parser that rejects every fragment.\<close>

definition ex_oxc_rejecting :: "(string, unit, string) oxc_pipeline" where
  "ex_oxc_rejecting =
     \<lparr>oxc_parse = (\<lambda>c. ([''Unexpected token''], c)), oxc_semantic = (\<lambda>p. ([], ())),
      oxc_transform = (\<lambda>s p. ([], p)), oxc_codegen = (\<lambda>p. p)\<rparr>"

text \<open>An accepting pipeline whose transformer changes the program: it drops the
  type annotation of \<open>let n: number =\<close> and indents the result with a tab.\<close>

definition ex_oxc_stripping :: "(string, unit, string) oxc_pipeline" where
  "ex_oxc_stripping =
     \<lparr>oxc_parse = (\<lambda>c. ([], c)), oxc_semantic = (\<lambda>p. ([], ())),
      oxc_transform = (\<lambda>s p. ([], if p = ''let n: number ='' then [CHR 0x09] @ ''let n ='' else p)),
      oxc_codegen = (\<lambda>p. p)\<rparr>"

section \<open>Properties\<close>

text \<open>C19: when a stage of the pipeline reports an error, the fragment is returned
  verbatim: no exception, no partial transformation.\<close>

theorem typescript_error_passthrough:
  assumes "pipeline_fails oxc code"
  shows "transform_typescript_to_js oxc code = code"
proof -
  obtain e1 p where parse: "oxc_parse oxc code = (e1, p)" by fastforce
  obtain e2 s where sem: "oxc_semantic oxc p = (e2, s)" by fastforce
  obtain e3 p' where tr: "oxc_transform oxc s p = (e3, p')" by fastforce
  from assms have "e1 \<noteq> [] \<or> e2 \<noteq> [] \<or> e3 \<noteq> []"
    by (simp add: pipeline_fails_def parse sem tr)
  then show ?thesis
    by (auto simp add: transform_typescript_to_js_def parse sem tr)
qed

theorem typescript_error_passthrough_witness:
  "pipeline_fails ex_oxc_rejecting ''const x: = 1'' \<and>
   transform_typescript_to_js ex_oxc_rejecting ''const x: = 1'' = ''const x: = 1''"
proof -
  have h: "pipeline_fails ex_oxc_rejecting ''const x: = 1''"
    by (simp add: pipeline_fails_def ex_oxc_rejecting_def)
  show ?thesis
    using h typescript_error_passthrough [OF h] by simp
qed

text \<open>C24: when every stage succeeds, the result is the program the transformer
  returned (not the parsed one), printed, with each tab replaced by two spaces; it
  contains no tab.\<close>

theorem typescript_success_untabbed:
  assumes "oxc_parse oxc code = ([], program)" and "oxc_semantic oxc program = ([], symbols)"
    and "oxc_transform oxc symbols program = ([], program')"
  shows "transform_typescript_to_js oxc code = str_replace_char tab_char ''  '' (oxc_codegen oxc program') \<and>
         tab_char \<notin> set (transform_typescript_to_js oxc code)"
proof -
  have eq: "transform_typescript_to_js oxc code = str_replace_char tab_char ''  '' (oxc_codegen oxc program')"
    using assms by (simp add: transform_typescript_to_js_def)
  have "tab_char \<notin> set (str_replace_char tab_char ''  '' (oxc_codegen oxc program'))"
    by (rule str_replace_char_absent) (simp add: tab_char_def)
  with eq show ?thesis by simp
qed

theorem typescript_success_untabbed_witness:
  "oxc_parse ex_oxc_stripping ''let n: number ='' = ([], ''let n: number ='') \<and>
   oxc_semantic ex_oxc_stripping ''let n: number ='' = ([], ()) \<and>
   oxc_transform ex_oxc_stripping () ''let n: number ='' = ([], [CHR 0x09] @ ''let n ='') \<and>
   transform_typescript_to_js ex_oxc_stripping ''let n: number ='' = ''  let n ='' \<and>
   tab_char \<notin> set (transform_typescript_to_js ex_oxc_stripping ''let n: number ='')"
proof -
  have h: "oxc_parse ex_oxc_stripping ''let n: number ='' = ([], ''let n: number ='')"
    "oxc_semantic ex_oxc_stripping ''let n: number ='' = ([], ())"
    "oxc_transform ex_oxc_stripping () ''let n: number ='' = ([], [CHR 0x09] @ ''let n ='')"
    by (simp_all add: ex_oxc_stripping_def)
  show ?thesis
    using h typescript_success_untabbed [OF h] by (simp add: tab_char_def ex_oxc_stripping_def)
qed

end
