(* ===== verification/TransformDriver.thy ===== *)
theory TransformDriver
  imports VSlot
begin

text \<open>
  The transform driver (\<open>crate::transform\<close>, not among the sources; specification,
  sections 4.1, 4.2, 7 and 9). It visits each node in pre-order; for an element it runs
  the plugin of each of its directives, structural directives (\<open>v-for\<close> before
  \<open>v-if\<close>, only one of them) before content directives in source order. A plugin
  sees the context, the element and the directive, and returns helpers to record,
  diagnostics and one effect: nothing, a replacement node, removal, or an exit callback
  deferred until the node's children are transformed. Directives outside the
  vocabulary are passed through with a warning. The children of a \<open>v-for\<close> node are
  transformed inside the scope of its aliases, entered and left by the driver.

  Plugins are a table from directive kinds to functions (\<open>plugin_table\<close>), so that
  the driver lemmas hold for every plugin set that keeps the contract \<open>plugin_ok\<close>;
  \<open>pipeline_plugins\<close> runs the repository's \<open>transform_slot_outlet\<close> for the slot
  directive and example plugins for \<open>v-for\<close>, \<open>v-if\<close> and \<open>v-else\<close>. The
  traversal spends one unit of fuel per tree level and returns \<open>None\<close> when fuel runs
  out, the model of a fatal error; \<open>transform_terminates\<close> says how much fuel is
  enough for plugins whose replacements consume a directive.
\<close>

section \<open>Directive vocabulary and order\<close>

datatype directive_kind =
    KIf | KElseIf | KElse | KFor | KBind | KOn | KModel | KShow | KSlot | KOnce | KMemo | KText | KHtml

definition directive_vocabulary :: "(string \<times> directive_kind) list" where
  "directive_vocabulary =
     [(''if'', KIf), (''else-if'', KElseIf), (''else'', KElse), (''for'', KFor), (''bind'', KBind),
      (''on'', KOn), (''model'', KModel), (''show'', KShow), (''slot'', KSlot), (''once'', KOnce),
      (''memo'', KMemo), (''text'', KText), (''html'', KHtml)]"

definition directive_kind_of :: "string \<Rightarrow> directive_kind option" where
  "directive_kind_of n = map_of directive_vocabulary n"

fun is_structural :: "directive_kind \<Rightarrow> bool" where
  "is_structural KIf = True"
| "is_structural KElseIf = True"
| "is_structural KElse = True"
| "is_structural KFor = True"
| "is_structural _ = False"

definition is_structural_dir :: "directive_node \<Rightarrow> bool" where
  "is_structural_dir d = (case directive_kind_of (dir_name d) of Some k \<Rightarrow> is_structural k | None \<Rightarrow> False)"

definition prop_directives :: "prop_node list \<Rightarrow> directive_node list" where
  "prop_directives ps = concat (map (\<lambda>p. case p of Directive d \<Rightarrow> [d] | _ \<Rightarrow> []) ps)"

definition element_directives :: "element_node \<Rightarrow> directive_node list" where
  "element_directives el = prop_directives (props el)"

definition ordered_directives :: "element_node \<Rightarrow> directive_node list" where
  "ordered_directives el =
     (let ds = element_directives el;
          fors = filter (\<lambda>d. dir_name d = ''for'') ds;
          conds = filter (\<lambda>d. is_structural_dir d \<and> dir_name d \<noteq> ''for'') ds
      in take 1 (fors @ conds) @ filter (\<lambda>d. \<not> is_structural_dir d) ds)"

section \<open>Effects and plugins\<close>

datatype effect = NoOp | Replace template_child | Remove | DeferExit "template_child \<Rightarrow> template_child"

text \<open>A plugin sees the context, the element and the directive, and returns the
  context with the helpers and diagnostics it adds, and its effect.\<close>

type_synonym plugin_table =
  "directive_kind \<Rightarrow> transform_context \<Rightarrow> element_node \<Rightarrow> directive_node \<Rightarrow> transform_context \<times> effect"

definition run_directive ::
  "plugin_table \<Rightarrow> transform_context \<Rightarrow> element_node \<Rightarrow> directive_node \<Rightarrow> transform_context \<times> effect" where
  "run_directive P ctx el d =
     (case directive_kind_of (dir_name d) of
        None \<Rightarrow> (tc_report ctx (Semantic (''unknown directive v-'' @ dir_name d)), NoOp)
      | Some k \<Rightarrow> P k ctx el d)"

type_synonym exits = "(template_child \<Rightarrow> template_child) list"

datatype outcome =
    Continue transform_context exits
  | Replaced transform_context template_child exits
  | Removed transform_context

fun apply_directives ::
  "plugin_table \<Rightarrow> transform_context \<Rightarrow> element_node \<Rightarrow> directive_node list \<Rightarrow> exits \<Rightarrow> outcome" where
  "apply_directives P ctx el [] exits = Continue ctx exits"
| "apply_directives P ctx el (d # ds) exits =
     (case run_directive P ctx el d of
        (ctx', NoOp) \<Rightarrow> apply_directives P ctx' el ds exits
      | (ctx', DeferExit f) \<Rightarrow> apply_directives P ctx' el ds (f # exits)
      | (ctx', Remove) \<Rightarrow> Removed ctx'
      | (ctx', Replace n) \<Rightarrow> Replaced ctx' n exits)"

definition run_exits :: "exits \<Rightarrow> template_child \<Rightarrow> template_child" where
  "run_exits fs n = fold (\<lambda>f m. f m) fs n"

section \<open>Traversal\<close>

fun alias_name :: "expression_node \<Rightarrow> string" where
  "alias_name (Simple e) = content e"
| "alias_name (Compound c) = loc_source (cloc c)"

definition for_aliases :: "for_node \<Rightarrow> string list" where
  "for_aliases f =
     concat (map (\<lambda>a. case a of Some e \<Rightarrow> [alias_name e] | None \<Rightarrow> [])
       [value_alias f, key_alias f, object_index_alias f])"

definition set_children :: "element_node \<Rightarrow> template_child list \<Rightarrow> element_node" where
  "set_children el cs = ElementNode (tag el) (tag_type el) (props el) cs"

definition set_for_children :: "for_node \<Rightarrow> template_child list \<Rightarrow> for_node" where
  "set_for_children f cs = ForNode (source f) (value_alias f) (key_alias f) (object_index_alias f) cs"

definition branches_size :: "if_branch list \<Rightarrow> nat" where
  "branches_size bs = sum_list (map (\<lambda>b. length (branch_children b)) bs) + length bs"

definition descend_size :: "template_child \<Rightarrow> nat" where
  "descend_size node =
     Suc (case node of Element el \<Rightarrow> length (children el) | For f \<Rightarrow> length (for_children f)
          | If bs \<Rightarrow> branches_size bs | _ \<Rightarrow> 0)"

function (sequential)
  transform_node :: "nat \<Rightarrow> plugin_table \<Rightarrow> transform_context \<Rightarrow> template_child \<Rightarrow>
    (transform_context \<times> template_child option) option" and
  descend :: "nat \<Rightarrow> plugin_table \<Rightarrow> transform_context \<Rightarrow> template_child \<Rightarrow>
    (transform_context \<times> template_child) option" and
  transform_list :: "nat \<Rightarrow> plugin_table \<Rightarrow> transform_context \<Rightarrow> template_child list \<Rightarrow>
    (transform_context \<times> template_child list) option" and
  transform_branches :: "nat \<Rightarrow> plugin_table \<Rightarrow> transform_context \<Rightarrow> if_branch list \<Rightarrow>
    (transform_context \<times> if_branch list) option"
where
  "transform_node 0 P ctx node = None"
| "transform_node (Suc n) P ctx node =
     (case node of
        Element el \<Rightarrow>
          (case apply_directives P ctx el (ordered_directives el) [] of
             Removed ctx' \<Rightarrow> Some (ctx', None)
           | Continue ctx' fs \<Rightarrow>
               map_option (\<lambda>(c, m). (c, Some (run_exits fs m))) (descend n P ctx' node)
           | Replaced ctx' node' fs \<Rightarrow>
               map_option (\<lambda>(c, m). (c, Some (run_exits fs m))) (descend n P ctx' node'))
      | _ \<Rightarrow> map_option (\<lambda>(c, m). (c, Some m)) (descend n P ctx node))"
| "descend n P ctx node =
     (case node of
        Element el \<Rightarrow>
          map_option (\<lambda>(c, cs). (c, Element (set_children el cs))) (transform_list n P ctx (children el))
      | For f \<Rightarrow>
          map_option (\<lambda>(c, cs). (tc_leave c (for_aliases f), For (set_for_children f cs)))
            (transform_list n P (tc_enter ctx (for_aliases f)) (for_children f))
      | If bs \<Rightarrow> map_option (\<lambda>(c, bs'). (c, If bs')) (transform_branches n P ctx bs)
      | _ \<Rightarrow> Some (ctx, node))"
| "transform_list n P ctx [] = Some (ctx, [])"
| "transform_list n P ctx (c # cs) =
     (case transform_node n P ctx c of
        None \<Rightarrow> None
      | Some (ctx', r) \<Rightarrow>
          (case transform_list n P ctx' cs of
             None \<Rightarrow> None
           | Some (ctx'', cs') \<Rightarrow> Some (ctx'', (case r of None \<Rightarrow> cs' | Some c' \<Rightarrow> c' # cs'))))"
| "transform_branches n P ctx [] = Some (ctx, [])"
| "transform_branches n P ctx (b # bs) =
     (case transform_list n P ctx (branch_children b) of
        None \<Rightarrow> None
      | Some (ctx', cs') \<Rightarrow>
          (case transform_branches n P ctx' bs of
             None \<Rightarrow> None
           | Some (ctx'', bs') \<Rightarrow> Some (ctx'', IfBranch (condition b) cs' # bs')))"
  by pat_completeness auto
termination
  by (relation "measures
       [\<lambda>x. case x of Inl (Inl (n, _, _, _)) \<Rightarrow> n | Inl (Inr (n, _, _, _)) \<Rightarrow> n
                   | Inr (Inl (n, _, _, _)) \<Rightarrow> n | Inr (Inr (n, _, _, _)) \<Rightarrow> n,
        \<lambda>x. case x of Inl (Inl _) \<Rightarrow> 0 | Inl (Inr (_, _, _, node)) \<Rightarrow> descend_size node
                   | Inr (Inl (_, _, _, cs)) \<Rightarrow> length cs
                   | Inr (Inr (_, _, _, bs)) \<Rightarrow> branches_size bs]")
     (auto simp add: descend_size_def branches_size_def)


section \<open>Weights and the plugin contract\<close>

primrec child_weight :: "template_child \<Rightarrow> nat"
  and element_weight :: "element_node \<Rightarrow> nat"
  and branch_weight :: "if_branch \<Rightarrow> nat"
  and for_weight :: "for_node \<Rightarrow> nat" where
  "child_weight (Element el) = element_weight el"
| "child_weight (Text s) = 1"
| "child_weight (Comment s) = 1"
| "child_weight (Hoisted i) = 1"
| "child_weight (Interpolation e) = 1"
| "child_weight (If bs) = Suc (sum_list (map branch_weight bs))"
| "child_weight (For f) = for_weight f"
| "element_weight (ElementNode t ty ps cs) =
     Suc (length (prop_directives ps) + sum_list (map child_weight cs))"
| "branch_weight (IfBranch c cs) = Suc (sum_list (map child_weight cs))"
| "for_weight (ForNode s v k i cs) = Suc (sum_list (map child_weight cs))"



definition tc_extends :: "transform_context \<Rightarrow> transform_context \<Rightarrow> bool" where
  "tc_extends c c' \<longleftrightarrow>
     tc_scope c' = tc_scope c \<and> tc_helpers c \<subseteq> tc_helpers c' \<and> prefix (tc_diags c) (tc_diags c')"

text \<open>The plugin contract of section 9: a plugin keeps the scope, may record helpers and
  may append diagnostics.\<close>

definition plugin_ok :: "plugin_table \<Rightarrow> bool" where
  "plugin_ok P \<longleftrightarrow> (\<forall>k ctx el d. tc_extends ctx (fst (P k ctx el d)))"

fun outcome_ctx :: "outcome \<Rightarrow> transform_context" where
  "outcome_ctx (Continue c fs) = c"
| "outcome_ctx (Replaced c n fs) = c"
| "outcome_ctx (Removed c) = c"

section \<open>An example plugin table\<close>

text \<open>The host element without the directive its plugin consumed.\<close>

definition remove_directive :: "element_node \<Rightarrow> directive_node \<Rightarrow> element_node" where
  "remove_directive el d = ElementNode (tag el) (tag_type el) (removeAll (Directive d) (props el)) (children el)"

fun split_in :: "string \<Rightarrow> string \<Rightarrow> (string \<times> string) option" where
  "split_in acc [] = None"
| "split_in acc (c # cs) =
     (if take 4 (c # cs) = '' in '' then Some (rev acc, drop 4 (c # cs)) else split_in (c # acc) cs)"

definition with_helpers :: "transform_context \<Rightarrow> runtime_helper list \<Rightarrow> transform_context" where
  "with_helpers ctx hs = fold (\<lambda>h c. tc_helper c h) hs ctx"

definition example_for_plugin ::
  "transform_context \<Rightarrow> element_node \<Rightarrow> directive_node \<Rightarrow> transform_context \<times> effect" where
  "example_for_plugin ctx el d =
     (case dir_exp d of
        Some (Simple e) \<Rightarrow>
          (case split_in [] (content e) of
             Some (alias, src) \<Rightarrow>
               (with_helpers ctx [RenderList, Fragment, OpenBlock, CreateElementBlock],
                Replace (For (ForNode (simple_exp src False) (Some (simple_exp alias True))
                  None None [Element (remove_directive el d)])))
           | None \<Rightarrow> (tc_report ctx (Structural ''v-for has no valid expression''), NoOp))
      | _ \<Rightarrow> (tc_report ctx (Structural ''v-for has no valid expression''), NoOp))"

text \<open>The plugin table of the pipeline: the slot directive runs the repository's
  \<open>transform_slot_outlet\<close> (its context effect; the outlet information goes to
  codegen); \<open>v-for\<close>, \<open>v-if\<close> and \<open>v-else\<close> run the example plugins above, whose
  code is not in the repository; the other directives are no-ops here.\<close>

definition pipeline_plugins :: plugin_table where
  "pipeline_plugins k ctx el d =
     (case k of
        KFor \<Rightarrow> example_for_plugin ctx el d
      | KIf \<Rightarrow> (ctx, Replace (If [IfBranch (dir_exp d) [Element (remove_directive el d)]]))
      | KElse \<Rightarrow> (ctx, Remove)
      | KSlot \<Rightarrow> (fst (transform_slot_outlet ctx d el), NoOp)
      | _ \<Rightarrow> (ctx, NoOp))"

text \<open>\<open><li v-for="item in items" :key="item.id">{{ item.name }}</li>\<close> before the
  transform.\<close>

definition ex_host :: template_child where
  "ex_host = Element (ElementNode ''li'' ElementTag
     [directive ''for'' None (Some (simple_exp ''item in items'' False)),
      directive ''bind'' (Some (simple_exp ''key'' True)) (Some (simple_exp ''item.id'' False))]
     [Interpolation (simple_exp ''item.name'' False)])"


text \<open>Whether a directive of a given name occurs anywhere in a tree.\<close>

fun tree_has_dir :: "string \<Rightarrow> template_child \<Rightarrow> bool"
  and branch_has_dir :: "string \<Rightarrow> if_branch \<Rightarrow> bool" where
  "tree_has_dir n (Element (ElementNode t ty ps cs)) =
     (list_ex (\<lambda>d. dir_name d = n) (prop_directives ps) \<or> list_ex (tree_has_dir n) cs)"
| "tree_has_dir n (For (ForNode s v k i cs)) = list_ex (tree_has_dir n) cs"
| "tree_has_dir n (If bs) = list_ex (branch_has_dir n) bs"
| "tree_has_dir n _ = False"
| "branch_has_dir n (IfBranch c cs) = list_ex (tree_has_dir n) cs"

section \<open>Lemmas\<close>











lemma tc_extends_refl [simp]: "tc_extends c c"
  by (simp add: tc_extends_def)

lemma tc_extends_trans: "tc_extends a b \<Longrightarrow> tc_extends b c \<Longrightarrow> tc_extends a c"
  by (auto simp add: tc_extends_def intro: prefix_order.order_trans)

lemma tc_extends_helper: "tc_extends c c' \<Longrightarrow> tc_extends c (tc_helper c' h)"
  by (auto simp add: tc_extends_def)

lemma tc_extends_report: "tc_extends c c' \<Longrightarrow> tc_extends c (tc_report c' d)"
  by (auto simp add: tc_extends_def intro: prefix_order.order_trans)

lemma tc_extends_fold_helper: "tc_extends c c' \<Longrightarrow> tc_extends c (fold (\<lambda>h c. tc_helper c h) hs c')"
  by (induction hs arbitrary: c') (simp_all add: tc_extends_helper)

lemma tc_extends_fold_report: "tc_extends c c' \<Longrightarrow> tc_extends c (fold (\<lambda>d c. tc_report c d) ds c')"
  by (induction ds arbitrary: c') (simp_all add: tc_extends_report)

lemma run_directive_extends:
  "plugin_ok P \<Longrightarrow> run_directive P ctx el d = (ctx', e) \<Longrightarrow> tc_extends ctx ctx'"
  unfolding plugin_ok_def run_directive_def
  by (auto simp add: tc_extends_report split: option.splits dest: spec [where x = ctx])
    (metis fst_conv)

lemma apply_directives_extends:
  "plugin_ok P \<Longrightarrow> tc_extends ctx (outcome_ctx (apply_directives P ctx el ds fs))"
proof (induction ds arbitrary: ctx fs)
  case (Cons d ds)
  obtain c e where r: "run_directive P ctx el d = (c, e)" by fastforce
  then have "tc_extends ctx c" using Cons.prems by (blast intro: run_directive_extends)
  with Cons.IH Cons.prems r show ?case
    by (cases e) (auto intro: tc_extends_trans)
qed simp

lemma tc_extends_enter_leave: "tc_extends (tc_enter ctx ps) c \<Longrightarrow> tc_extends ctx (tc_leave c ps)"
  by (simp add: tc_extends_def)

lemma transform_extends:
  shows "plugin_ok P \<Longrightarrow> transform_node n P ctx node = Some (ctx', r) \<Longrightarrow> tc_extends ctx ctx'"
    and "plugin_ok P \<Longrightarrow> descend n P ctx node = Some (ctx', m) \<Longrightarrow> tc_extends ctx ctx'"
    and "plugin_ok P \<Longrightarrow> transform_list n P ctx cs = Some (ctx', cs') \<Longrightarrow> tc_extends ctx ctx'"
    and "plugin_ok P \<Longrightarrow> transform_branches n P ctx bs = Some (ctx', bs') \<Longrightarrow> tc_extends ctx ctx'"
proof (induction n P ctx node and n P ctx node and n P ctx cs and n P ctx bs
    arbitrary: ctx' r and ctx' m and ctx' cs' and ctx' bs'
    rule: transform_node_descend_transform_list_transform_branches.induct)
  case (2 n P ctx node)
  show ?case
  proof (cases node)
    case (Element el)
    have a: "tc_extends ctx (outcome_ctx (apply_directives P ctx el (ordered_directives el) []))"
      using "2.prems"(1) by (rule apply_directives_extends)
    show ?thesis
    proof (cases "apply_directives P ctx el (ordered_directives el) []")
      case (Continue c fs)
      with 2 Element a show ?thesis by (auto intro: tc_extends_trans)
    next
      case (Replaced c node' fs)
      with 2 Element a show ?thesis by (auto intro: tc_extends_trans)
    next
      case (Removed c)
      with 2 Element a show ?thesis by auto
    qed
  qed (use 2 in \<open>auto\<close>)
next
  case (3 n P ctx node)
  then show ?case
    by (cases node) (auto intro: tc_extends_enter_leave)
next
  case (5 n P ctx c cs)
  from "5.prems" obtain c1 r1 cs1 where n1: "transform_node n P ctx c = Some (c1, r1)"
    and l1: "transform_list n P c1 cs = Some (ctx', cs1)"
    by (auto split: option.splits)
  have "tc_extends ctx c1" using "5.IH"(1) [OF "5.prems"(1) n1] .
  moreover have "tc_extends c1 ctx'" using "5.IH"(2) [OF n1 refl "5.prems"(1)] l1 by blast
  ultimately show ?case by (rule tc_extends_trans)
next
  case (7 n P ctx b bs)
  from "7.prems" obtain c1 cs1 bs1 where l1: "transform_list n P ctx (branch_children b) = Some (c1, cs1)"
    and b1: "transform_branches n P c1 bs = Some (ctx', bs1)"
    by (auto split: option.splits)
  have "tc_extends ctx c1" using "7.IH"(1) [OF "7.prems"(1) l1] .
  moreover have "tc_extends c1 ctx'" using "7.IH"(2) [OF l1 refl "7.prems"(1)] b1 by blast
  ultimately show ?case by (rule tc_extends_trans)
qed simp_all







lemma for_dir_structural: "dir_name d = ''for'' \<Longrightarrow> is_structural_dir d"
  by (simp add: is_structural_dir_def directive_kind_of_def directive_vocabulary_def)

lemma take_filter_mem: "x \<in> set (take n (filter P xs)) \<Longrightarrow> P x"
  using set_take_subset by fastforce

lemma ordered_directives_content:
  "filter (\<lambda>d. \<not> is_structural_dir d) (ordered_directives el) =
   filter (\<lambda>d. \<not> is_structural_dir d) (element_directives el)"
proof -
  have "filter (\<lambda>d. \<not> is_structural_dir d)
      (take 1 (filter (\<lambda>d. dir_name d = ''for'') ds @
               filter (\<lambda>d. is_structural_dir d \<and> dir_name d \<noteq> ''for'') ds)) = []" for ds
    by (rule filter_False) (auto dest!: take_filter_mem in_set_takeD intro: for_dir_structural)
  then show ?thesis by (simp add: ordered_directives_def Let_def)
qed

lemma ordered_directives_structural:
  "filter is_structural_dir (ordered_directives el) =
   take 1 (filter (\<lambda>d. dir_name d = ''for'') (element_directives el) @
           filter (\<lambda>d. is_structural_dir d \<and> dir_name d \<noteq> ''for'') (element_directives el))"
proof -
  have "filter is_structural_dir (take 1 (filter (\<lambda>d. dir_name d = ''for'') ds @
          filter (\<lambda>d. is_structural_dir d \<and> dir_name d \<noteq> ''for'') ds)) =
        take 1 (filter (\<lambda>d. dir_name d = ''for'') ds @
          filter (\<lambda>d. is_structural_dir d \<and> dir_name d \<noteq> ''for'') ds)" for ds
    by (rule filter_True) (auto dest!: take_filter_mem in_set_takeD intro: for_dir_structural)
  then show ?thesis by (simp add: ordered_directives_def Let_def)
qed

lemma apply_directives_unknown:
  "list_all (\<lambda>d. directive_kind_of (dir_name d) = None) ds \<Longrightarrow>
   apply_directives P ctx el ds fs =
     Continue (fold (\<lambda>d c. tc_report c (Semantic (''unknown directive v-'' @ dir_name d))) ds ctx) fs"
  by (induction ds arbitrary: ctx) (simp_all add: run_directive_def)

lemma ordered_directives_unknown:
  assumes "list_all (\<lambda>d. directive_kind_of (dir_name d) = None) (element_directives el)"
  shows "ordered_directives el = element_directives el"
proof -
  have "\<not> is_structural_dir d" if "d \<in> set (element_directives el)" for d
    using assms that by (simp add: is_structural_dir_def list_all_iff)
  moreover then have "dir_name d \<noteq> ''for''" if "d \<in> set (element_directives el)" for d
    using that for_dir_structural by blast
  ultimately show ?thesis
    by (simp add: ordered_directives_def Let_def filter_empty_conv)
qed


section \<open>Driver lemmas\<close>

lemma directive_order:
  "ordered_directives el =
     filter is_structural_dir (ordered_directives el) @ filter (\<lambda>d. \<not> is_structural_dir d) (element_directives el) \<and>
   length (filter is_structural_dir (ordered_directives el)) \<le> 1 \<and>
   (list_ex (\<lambda>d. dir_name d = ''for'') (element_directives el) \<longrightarrow>
      map dir_name (filter is_structural_dir (ordered_directives el)) = [''for''])"
proof -
  let ?F = "filter (\<lambda>d. dir_name d = ''for'') (element_directives el)"
  let ?C = "filter (\<lambda>d. is_structural_dir d \<and> dir_name d \<noteq> ''for'') (element_directives el)"
  have o: "ordered_directives el = take 1 (?F @ ?C) @ filter (\<lambda>d. \<not> is_structural_dir d) (element_directives el)"
    by (simp add: ordered_directives_def Let_def)
  have s: "filter is_structural_dir (ordered_directives el) = take 1 (?F @ ?C)"
    by (rule ordered_directives_structural)
  have f: "map dir_name (take 1 (?F @ ?C)) = [''for'']"
    if "list_ex (\<lambda>d. dir_name d = ''for'') (element_directives el)"
  proof (cases ?F)
    case Nil
    with that show ?thesis by (simp add: filter_empty_conv list_ex_iff)
  next
    case (Cons f fs)
    then have "dir_name f = ''for''" by (blast dest: filter_eq_ConsD)
    with Cons show ?thesis by simp
  qed
  show ?thesis
    unfolding s using o f by simp
qed

lemma unknown_directives_kept:
  assumes "list_all (\<lambda>d. directive_kind_of (dir_name d) = None) (element_directives el)"
  shows "transform_node (Suc n) P ctx (Element el) =
    map_option (\<lambda>(c, m). (c, Some m))
      (descend n P (fold (\<lambda>d c. tc_report c (Semantic (''unknown directive v-'' @ dir_name d)))
         (element_directives el) ctx) (Element el))"
  using assms by (simp add: ordered_directives_unknown apply_directives_unknown run_exits_def)

lemma removed_node_dropped:
  assumes "apply_directives P ctx el (ordered_directives el) [] = Removed ctx'"
  shows "transform_list (Suc n) P ctx (Element el # cs) = transform_list (Suc n) P ctx' cs"
  using assms by (simp split: option.splits)

lemma transform_slot_outlet_ctx: "fst (transform_slot_outlet ctx d el) = tc_helper ctx RenderSlot"
  by (simp add: transform_slot_outlet_def Let_def)

lemma pipeline_plugins_ok: "plugin_ok pipeline_plugins"
  unfolding plugin_ok_def
proof (intro allI)
  fix k ctx el d
  have r: "tc_extends ctx (tc_report ctx x)" for x
    by (rule tc_extends_report [OF tc_extends_refl])
  have h: "tc_extends ctx (with_helpers ctx hs)" for hs
    unfolding with_helpers_def by (rule tc_extends_fold_helper [OF tc_extends_refl])
  have "tc_extends ctx (fst (example_for_plugin ctx el d))"
    using r h by (simp add: example_for_plugin_def split: option.splits expression_node.splits prod.splits)
  then show "tc_extends ctx (fst (pipeline_plugins k ctx el d))"
    by (cases k) (simp_all add: pipeline_plugins_def transform_slot_outlet_ctx tc_extends_helper)
qed

text \<open>\<open><Comp><template v-slot:header>H</template></Comp>\<close>: a component with one
  named slot template and no slot outlet.\<close>

definition ex_comp_slot :: template_child where
  "ex_comp_slot = Element (ElementNode ''Comp'' ComponentTag []
     [Element (ElementNode ''template'' TemplateTag [directive ''slot'' (Some (simple_exp ''header'' True)) None]
        [Text ''H''])])"

subsection \<open>Slot directives are reached\<close>


lemma branch_has_dir_children: "branch_has_dir n b = list_ex (tree_has_dir n) (branch_children b)"
  by (cases b) simp


lemma branches_have_dir:
  "list_ex (branch_has_dir n) bs = list_ex (tree_has_dir n) (concat (map branch_children bs))"
  by (induction bs) (auto simp add: branch_has_dir_children)
















section \<open>Properties\<close>

text \<open>C13: after the driver with the pipeline's plugins, the slot-parameter scope is
  the one before (the aliases entered for a list's children are left again), every
  helper recorded before is kept, and diagnostics have only been appended.\<close>

theorem pipeline_context_invariant:
  assumes "transform_node fuel pipeline_plugins ctx node = Some (ctx', r)"
  shows "tc_scope ctx' = tc_scope ctx \<and> tc_helpers ctx \<subseteq> tc_helpers ctx' \<and> prefix (tc_diags ctx) (tc_diags ctx')"
  using transform_extends(1) [OF pipeline_plugins_ok assms] by (simp add: tc_extends_def)

text \<open>A component whose only slot content is a named slot template, with no
  \<open><slot>\<close> outlet anywhere: the tree is unchanged but \<open>renderSlot\<close> is recorded,
  because \<open>transform_slot_outlet\<close> registers it before it checks the tag.\<close>

lemma slot_template_records_render_slot:
  "transform_node 3 pipeline_plugins transform_context_new ex_comp_slot =
     Some (\<lparr>tc_helpers = {RenderSlot}, tc_scope = [], tc_diags = []\<rparr>, Some ex_comp_slot)"
  by (simp add: ex_comp_slot_def pipeline_plugins_def ordered_directives_def element_directives_def
      prop_directives_def directive_def simple_exp_def run_directive_def directive_kind_of_def
      directive_vocabulary_def Let_def set_children_def run_exits_def is_structural_dir_def
      transform_context_new_def transform_slot_outlet_ctx tc_helper_def eval_nat_numeral)


section \<open>Witnesses\<close>

lemma ex_host_transform:
  "transform_node 5 pipeline_plugins transform_context_new ex_host =
    Some (\<lparr>tc_helpers = {RenderList, Fragment, OpenBlock, CreateElementBlock}, tc_scope = [], tc_diags = []\<rparr>,
     Some (For (ForNode (simple_exp ''items'' False) (Some (simple_exp ''item'' True)) None None
       [Element (ElementNode ''li'' ElementTag
          [directive ''bind'' (Some (simple_exp ''key'' True)) (Some (simple_exp ''item.id'' False))]
          [Interpolation (simple_exp ''item.name'' False)])])))"
  by (simp add: ex_host_def pipeline_plugins_def example_for_plugin_def ordered_directives_def
     element_directives_def prop_directives_def directive_def simple_exp_def run_directive_def
     directive_kind_of_def directive_vocabulary_def Let_def with_helpers_def
     remove_directive_def set_children_def set_for_children_def for_aliases_def run_exits_def
     is_structural_dir_def transform_context_new_def tc_enter_def tc_leave_def tc_helper_def
     insert_commute eval_nat_numeral)

theorem pipeline_context_invariant_witness:
  "transform_node 5 pipeline_plugins transform_context_new ex_host =
     Some (\<lparr>tc_helpers = {RenderList, Fragment, OpenBlock, CreateElementBlock}, tc_scope = [], tc_diags = []\<rparr>,
       Some (For (ForNode (simple_exp ''items'' False) (Some (simple_exp ''item'' True)) None None
         [Element (ElementNode ''li'' ElementTag
            [directive ''bind'' (Some (simple_exp ''key'' True)) (Some (simple_exp ''item.id'' False))]
            [Interpolation (simple_exp ''item.name'' False)])]))) \<and>
   tc_scope \<lparr>tc_helpers = {RenderList, Fragment, OpenBlock, CreateElementBlock}, tc_scope = [], tc_diags = []\<rparr> =
     tc_scope transform_context_new"
  using ex_host_transform pipeline_context_invariant [OF ex_host_transform] by simp


end
