(* ===== verification/Hoist.thy ===== *)
theory Hoist
  imports TransformDriver VFor
begin

text \<open>
  Static hoisting (\<open>transforms/hoist_static\<close>, not among the sources; specification,
  section 4.3). A subtree is static when it is built only of text, comments and plain
  elements whose props are all static attributes; a static element is hoistable. The
  pass walks the tree top-down and replaces each maximal hoistable subtree by a
  reference \<open>Hoisted i\<close> to the \<open>i\<close>-th constant of the compile unit, appending the
  subtree to the list of constants; it descends into every other node. Lemmas: the
  constants only grow and are all hoistable; substituting the constants back gives the
  original tree (\<open>hoist_roundtrip\<close>); the references in document order are exactly
  the new constants' indices (\<open>hoist_refs\<close>), so identical subtrees get distinct
  constants; no hoistable element is left (\<open>hoist_maximal\<close>). Hoisting leaves the
  code generator's fragment classification and the slots \<open>collect_slots\<close> finds
  unchanged.
\<close>

section \<open>Static subtrees\<close>

fun is_attribute :: "prop_node \<Rightarrow> bool" where
  "is_attribute (Attribute _) = True"
| "is_attribute (Directive _) = False"

fun static_child :: "template_child \<Rightarrow> bool" where
  "static_child (Element (ElementNode t ty ps cs)) =
     (ty = ElementTag \<and> list_all is_attribute ps \<and> list_all static_child cs)"
| "static_child (Text s) = True"
| "static_child (Comment s) = True"
| "static_child _ = False"

definition hoistable :: "template_child \<Rightarrow> bool" where
  "hoistable c = (case c of Element el \<Rightarrow> static_child c | _ \<Rightarrow> False)"

section \<open>The hoisting pass\<close>

function (sequential) hoist_child ::
    "template_child list \<Rightarrow> template_child \<Rightarrow> template_child list \<times> template_child"
  and hoist_list ::
    "template_child list \<Rightarrow> template_child list \<Rightarrow> template_child list \<times> template_child list"
  and hoist_branches ::
    "template_child list \<Rightarrow> if_branch list \<Rightarrow> template_child list \<times> if_branch list" where
  "hoist_child hs (Element (ElementNode t ty ps cs)) =
     (if hoistable (Element (ElementNode t ty ps cs)) then (hs @ [Element (ElementNode t ty ps cs)], Hoisted (length hs))
      else (case hoist_list hs cs of (hs', cs') \<Rightarrow> (hs', Element (ElementNode t ty ps cs'))))"
| "hoist_child hs (For (ForNode s v k i cs)) =
     (case hoist_list hs cs of (hs', cs') \<Rightarrow> (hs', For (ForNode s v k i cs')))"
| "hoist_child hs (If bs) = (case hoist_branches hs bs of (hs', bs') \<Rightarrow> (hs', If bs'))"
| "hoist_child hs c = (hs, c)"
| "hoist_list hs [] = (hs, [])"
| "hoist_list hs (c # cs) =
     (case hoist_child hs c of (hs', c') \<Rightarrow> (case hoist_list hs' cs of (hs'', cs') \<Rightarrow> (hs'', c' # cs')))"
| "hoist_branches hs [] = (hs, [])"
| "hoist_branches hs (IfBranch cond cs # bs) =
     (case hoist_list hs cs of
        (hs', cs') \<Rightarrow> (case hoist_branches hs' bs of (hs'', bs') \<Rightarrow> (hs'', IfBranch cond cs' # bs')))"
  by pat_completeness auto
termination
  by (relation "measure (\<lambda>x. case x of Inl (_, c) \<Rightarrow> size c | Inr (Inl (_, cs)) \<Rightarrow> size_list size cs
                                   | Inr (Inr (_, bs)) \<Rightarrow> size_list size bs)") auto

section \<open>Reading the constants back\<close>

text \<open>The references left in a tree, in document order, and the tree with every
  reference replaced by its constant.\<close>

fun refs :: "template_child \<Rightarrow> nat list"
  and branch_refs :: "if_branch \<Rightarrow> nat list" where
  "refs (Hoisted i) = [i]"
| "refs (Element (ElementNode t ty ps cs)) = concat (map refs cs)"
| "refs (For (ForNode s v k i cs)) = concat (map refs cs)"
| "refs (If bs) = concat (map branch_refs bs)"
| "refs _ = []"
| "branch_refs (IfBranch c cs) = concat (map refs cs)"

fun unhoist :: "template_child list \<Rightarrow> template_child \<Rightarrow> template_child"
  and unhoist_branch :: "template_child list \<Rightarrow> if_branch \<Rightarrow> if_branch" where
  "unhoist hs (Hoisted i) = (if i < length hs then hs ! i else Hoisted i)"
| "unhoist hs (Element (ElementNode t ty ps cs)) = Element (ElementNode t ty ps (map (unhoist hs) cs))"
| "unhoist hs (For (ForNode s v k i cs)) = For (ForNode s v k i (map (unhoist hs) cs))"
| "unhoist hs (If bs) = If (map (unhoist_branch hs) bs)"
| "unhoist hs c = c"
| "unhoist_branch hs (IfBranch c cs) = IfBranch c (map (unhoist hs) cs)"

text \<open>Whether a hoistable element is left anywhere in a tree.\<close>

fun has_hoistable :: "template_child \<Rightarrow> bool"
  and branch_has_hoistable :: "if_branch \<Rightarrow> bool" where
  "has_hoistable (Element (ElementNode t ty ps cs)) =
     (hoistable (Element (ElementNode t ty ps cs)) \<or> list_ex has_hoistable cs)"
| "has_hoistable (For (ForNode s v k i cs)) = list_ex has_hoistable cs"
| "has_hoistable (If bs) = list_ex branch_has_hoistable bs"
| "has_hoistable _ = False"
| "branch_has_hoistable (IfBranch c cs) = list_ex has_hoistable cs"

text \<open>The per-child test of \<open>children_have_key\<close>.\<close>

definition child_keyed :: "template_child \<Rightarrow> bool" where
  "child_keyed c = (case c of Element el \<Rightarrow> get_element_key el \<noteq> None | _ \<Rightarrow> False)"

text \<open>The per-child test of \<open>has_non_slot_children\<close>.\<close>

definition non_slot_child :: "template_child \<Rightarrow> bool" where
  "non_slot_child c = (case c of Element c \<Rightarrow> \<not> (tag c = ''template'' \<and> has_v_slot c) | _ \<Rightarrow> True)"

text \<open>Examples: a \<open>v-for\<close> list whose item holds a static paragraph and a keyed
  element, and \<open><div :id="x"><p>hi</p><p>hi</p></div>\<close> with two identical static
  subtrees, and \<open><Comp><template #header>H</template><p class="c">hi</p></Comp>\<close>.\<close>

definition ex_static_p :: template_child where
  "ex_static_p = Element (ElementNode ''p'' ElementTag [Attribute \<lparr>attr_name = ''class'', attr_value = Some ''c''\<rparr>]
     [Text ''hi''])"

definition ex_hoist_for :: for_node where
  "ex_hoist_for = ForNode (simple_exp ''items'' False) (Some (simple_exp ''item'' True)) None None
     [ex_static_p,
      Element (ElementNode ''li'' ElementTag
        [directive ''bind'' (Some (simple_exp ''key'' True)) (Some (simple_exp ''item.id'' False))] [])]"

definition ex_comp_static :: element_node where
  "ex_comp_static = ElementNode ''Comp'' ComponentTag [] [slot_template ''header'' [Text ''H''], ex_static_p]"

definition ex_two_p :: template_child where
  "ex_two_p = Element (ElementNode ''div'' ElementTag
     [directive ''bind'' (Some (simple_exp ''id'' True)) (Some (simple_exp ''x'' False))] [ex_static_p, ex_static_p])"

section \<open>Lemmas\<close>

lemma set_children_simp [simp]: "set_children (ElementNode t ty ps cs) cs' = ElementNode t ty ps cs'"
  by (simp add: set_children_def)

lemma set_for_children_simp [simp]:
  "set_for_children (ForNode s v k i cs) cs' = ForNode s v k i cs'"
  by (simp add: set_for_children_def)

lemma hoist_extends:
  shows "hoist_child hs c = (hs', c') \<Longrightarrow> \<exists>new. hs' = hs @ new \<and> list_all hoistable new"
    and "hoist_list hs cs = (hs', cs') \<Longrightarrow> \<exists>new. hs' = hs @ new \<and> list_all hoistable new"
    and "hoist_branches hs bs = (hs', bs') \<Longrightarrow> \<exists>new. hs' = hs @ new \<and> list_all hoistable new"
proof (induction hs c and hs cs and hs bs arbitrary: hs' c' and hs' cs' and hs' bs'
    rule: hoist_child_hoist_list_hoist_branches.induct)
  case (6 hs c cs)
  then show ?case by (fastforce split: prod.splits)
next
  case (8 hs cond cs bs)
  then show ?case by (fastforce split: prod.splits)
qed (fastforce split: if_splits prod.splits)+


lemma hoist_roundtrip:
  shows "refs c = [] \<Longrightarrow> hoist_child hs c = (hs', c') \<Longrightarrow> unhoist (hs' @ ext) c' = c"
    and "concat (map refs cs) = [] \<Longrightarrow> hoist_list hs cs = (hs', cs') \<Longrightarrow> map (unhoist (hs' @ ext)) cs' = cs"
    and "concat (map branch_refs bs) = [] \<Longrightarrow> hoist_branches hs bs = (hs', bs') \<Longrightarrow>
         map (unhoist_branch (hs' @ ext)) bs' = bs"
proof (induction hs c and hs cs and hs bs arbitrary: hs' c' ext and hs' cs' ext and hs' bs' ext
    rule: hoist_child_hoist_list_hoist_branches.induct)
  case (1 hs t ty ps cs)
  then show ?case by (auto simp add: nth_append split: if_splits prod.splits)
next
  case (6 hs c cs)
  from "6.prems" obtain h1 c1 h2 cs2 where c1: "hoist_child hs c = (h1, c1)"
    and cs2: "hoist_list h1 cs = (h2, cs2)" and eq: "hs' = h2" "cs' = c1 # cs2"
    by (auto split: prod.splits)
  obtain new where h2: "h2 = h1 @ new" using hoist_extends(2) [OF cs2] by blast
  have "unhoist (h1 @ (new @ ext)) c1 = c" using "6.IH"(1) [OF _ c1] "6.prems"(1) by simp
  moreover have "map (unhoist (h2 @ ext)) cs2 = cs" using "6.IH"(2) [OF c1 [symmetric] _ cs2] "6.prems"(1) by simp
  ultimately show ?case using eq h2 by simp
next
  case (8 hs cond cs bs)
  from "8.prems" obtain h1 cs1 h2 bs2 where cs1: "hoist_list hs cs = (h1, cs1)"
    and bs2: "hoist_branches h1 bs = (h2, bs2)" and eq: "hs' = h2" "bs' = IfBranch cond cs1 # bs2"
    by (auto split: prod.splits)
  obtain new where h2: "h2 = h1 @ new" using hoist_extends(3) [OF bs2] by blast
  have "map (unhoist (h1 @ (new @ ext))) cs1 = cs" using "8.IH"(1) [OF _ cs1] "8.prems"(1) by simp
  moreover have "map (unhoist_branch (h2 @ ext)) bs2 = bs" using "8.IH"(2) [OF cs1 [symmetric] _ bs2] "8.prems"(1) by simp
  ultimately show ?case using eq h2 by simp
qed (auto split: prod.splits)

lemma upt_join: "i \<le> j \<Longrightarrow> j \<le> k \<Longrightarrow> [i..<j] @ [j..<k] = [i..<k]"
  by (metis le_add_diff_inverse upt_add_eq_append)

lemma hoist_refs:
  shows "refs c = [] \<Longrightarrow> hoist_child hs c = (hs', c') \<Longrightarrow> refs c' = [length hs..<length hs']"
    and "concat (map refs cs) = [] \<Longrightarrow> hoist_list hs cs = (hs', cs') \<Longrightarrow>
         concat (map refs cs') = [length hs..<length hs']"
    and "concat (map branch_refs bs) = [] \<Longrightarrow> hoist_branches hs bs = (hs', bs') \<Longrightarrow>
         concat (map branch_refs bs') = [length hs..<length hs']"
proof (induction hs c and hs cs and hs bs arbitrary: hs' c' and hs' cs' and hs' bs'
    rule: hoist_child_hoist_list_hoist_branches.induct)
  case (6 hs c cs)
  from "6.prems" obtain h1 c1 h2 cs2 where c1: "hoist_child hs c = (h1, c1)"
    and cs2: "hoist_list h1 cs = (h2, cs2)" and eq: "hs' = h2" "cs' = c1 # cs2"
    by (auto split: prod.splits)
  have "length hs \<le> length h1" using hoist_extends(1) [OF c1] by auto
  moreover have "length h1 \<le> length h2" using hoist_extends(2) [OF cs2] by auto
  moreover have "refs c1 = [length hs..<length h1]" using "6.IH"(1) [OF _ c1] "6.prems"(1) by simp
  moreover have "concat (map refs cs2) = [length h1..<length h2]"
    using "6.IH"(2) [OF c1 [symmetric] _ cs2] "6.prems"(1) by simp
  ultimately show ?case using eq by (simp add: upt_join)
next
  case (8 hs cond cs bs)
  from "8.prems" obtain h1 cs1 h2 bs2 where cs1: "hoist_list hs cs = (h1, cs1)"
    and bs2: "hoist_branches h1 bs = (h2, bs2)" and eq: "hs' = h2" "bs' = IfBranch cond cs1 # bs2"
    by (auto split: prod.splits)
  have "length hs \<le> length h1" using hoist_extends(2) [OF cs1] by auto
  moreover have "length h1 \<le> length h2" using hoist_extends(3) [OF bs2] by auto
  moreover have "concat (map refs cs1) = [length hs..<length h1]" using "8.IH"(1) [OF _ cs1] "8.prems"(1) by simp
  moreover have "concat (map branch_refs bs2) = [length h1..<length h2]"
    using "8.IH"(2) [OF cs1 [symmetric] _ bs2] "8.prems"(1) by simp
  ultimately show ?case using eq by (simp add: upt_join)
qed (auto simp add: hoistable_def split: if_splits prod.splits)

lemma hoist_maximal:
  shows "hoist_child hs c = (hs', c') \<Longrightarrow> \<not> has_hoistable c' \<and> (static_child c' \<longrightarrow> static_child c)"
    and "hoist_list hs cs = (hs', cs') \<Longrightarrow>
         \<not> list_ex has_hoistable cs' \<and> (list_all static_child cs' \<longrightarrow> list_all static_child cs)"
    and "hoist_branches hs bs = (hs', bs') \<Longrightarrow> \<not> list_ex branch_has_hoistable bs'"
proof (induction hs c and hs cs and hs bs arbitrary: hs' c' and hs' cs' and hs' bs'
    rule: hoist_child_hoist_list_hoist_branches.induct)
  case (1 hs t ty ps cs)
  show ?case
  proof (cases "hoistable (Element (ElementNode t ty ps cs))")
    case True
    with "1.prems" show ?thesis by auto
  next
    case False
    with "1.prems" obtain cs' where cs': "hoist_list hs cs = (hs', cs')"
      and c': "c' = Element (ElementNode t ty ps cs')"
      by (auto split: prod.splits)
    from "1.IH" [OF False cs'] False c' show ?thesis
      by (auto simp add: hoistable_def)
  qed
qed (fastforce split: prod.splits)+

subsection \<open>What hoisting leaves unchanged\<close>

lemma find_key_prop_attributes: "list_all is_attribute ps \<Longrightarrow> find_key_prop ps = None"
proof (induction ps)
  case (Cons p ps)
  then show ?case by (cases p) simp_all
qed simp

lemma hoist_child_keyed:
  assumes h: "hoist_child hs c = (hs', c')"
  shows "child_keyed c' = child_keyed c"
proof (cases c)
  case (Element el)
  obtain t ty ps cs where el: "el = ElementNode t ty ps cs" by (cases el)
  show ?thesis
  proof (cases "hoistable (Element el)")
    case True
    then have "list_all is_attribute ps" using el by (simp add: hoistable_def)
    with True h Element el show ?thesis
      by (auto simp add: child_keyed_def get_element_key_def find_key_prop_attributes)
  next
    case False
    with h Element el show ?thesis by (auto simp add: child_keyed_def get_element_key_def split: prod.splits)
  qed
next
  case (For f)
  then show ?thesis using h by (cases f) (auto simp add: child_keyed_def split: prod.splits)
qed (use h in \<open>auto simp add: child_keyed_def split: prod.splits\<close>)

lemma hoist_list_keyed: "hoist_list hs cs = (hs', cs') \<Longrightarrow> children_have_key cs' = children_have_key cs"
proof (induction cs arbitrary: hs hs' cs')
  case (Cons c cs)
  from Cons.prems obtain h1 c1 cs2 where c1: "hoist_child hs c = (h1, c1)"
    and cs2: "hoist_list h1 cs = (hs', cs2)" and eq: "cs' = c1 # cs2"
    by (auto split: prod.splits)
  have "child_keyed c1 = child_keyed c" using c1 by (rule hoist_child_keyed)
  with Cons.IH [OF cs2] eq show ?case
    by (simp add: children_have_key_def child_keyed_def)
qed (simp add: children_have_key_def)

lemma prop_slots_attributes: "list_all is_attribute ps \<Longrightarrow> concat (map prop_slots ps) = []"
proof (induction ps)
  case (Cons p ps)
  then show ?case by (cases p) (simp_all add: prop_slots_def)
qed simp

lemma has_v_slot_attributes: "list_all is_attribute (props el) \<Longrightarrow> \<not> has_v_slot el"
  by (auto simp add: has_v_slot_def is_slot_directive_def list_all_iff list_ex_iff split: prop_node.splits)

lemma hoist_child_slots:
  assumes h: "hoist_child hs c = (hs', c')"
  shows "child_slots c' = child_slots c \<and> non_slot_child c' = non_slot_child c"
proof (cases c)
  case (Element el)
  obtain t ty ps cs where el: "el = ElementNode t ty ps cs" by (cases el)
  show ?thesis
  proof (cases "hoistable (Element el)")
    case True
    then have "list_all is_attribute ps" using el by (simp add: hoistable_def)
    with True h Element el show ?thesis
      by (auto simp add: child_slots_def non_slot_child_def prop_slots_attributes has_v_slot_attributes)
  next
    case False
    with h Element el show ?thesis
      by (auto simp add: child_slots_def non_slot_child_def has_v_slot_def split: prod.splits)
  qed
next
  case (For f)
  then show ?thesis using h by (cases f) (auto simp add: child_slots_def non_slot_child_def split: prod.splits)
qed (use h in \<open>auto simp add: child_slots_def non_slot_child_def split: prod.splits\<close>)

lemma hoist_list_slots:
  "hoist_list hs cs = (hs', cs') \<Longrightarrow>
   concat (map child_slots cs') = concat (map child_slots cs) \<and> list_ex non_slot_child cs' = list_ex non_slot_child cs"
proof (induction cs arbitrary: hs hs' cs')
  case (Cons c cs)
  from Cons.prems obtain h1 c1 cs2 where c1: "hoist_child hs c = (h1, c1)"
    and cs2: "hoist_list h1 cs = (hs', cs2)" and eq: "cs' = c1 # cs2"
    by (auto split: prod.splits)
  from hoist_child_slots [OF c1] Cons.IH [OF cs2] eq show ?case by simp
qed simp

lemma has_non_slot_children_list: "has_non_slot_children el = list_ex non_slot_child (children el)"
  by (simp add: has_non_slot_children_def non_slot_child_def [abs_def])

text \<open>The specification's example: two structurally identical static subtrees in one
  compile unit are two constants; nothing is deduplicated.\<close>

lemma identical_subtrees_two_constants:
  "hoist_child [] ex_two_p =
     ([ex_static_p, ex_static_p],
      Element (ElementNode ''div'' ElementTag
        [directive ''bind'' (Some (simple_exp ''id'' True)) (Some (simple_exp ''x'' False))] [Hoisted 0, Hoisted 1]))"
  by (simp add: ex_two_p_def ex_static_p_def hoistable_def directive_def)

section \<open>Properties\<close>

text \<open>C15: static hoisting inside a \<open>v-for\<close> list keeps its source and its fragment
  flag: a child carrying a \<open>:key\<close> is never hoisted (it has a directive), and a
  hoisted child had no key, so \<open>children_have_key\<close> and the Stable/Keyed/Unkeyed
  classification of the code generator are the same before and after.\<close>

theorem hoist_preserves_fragment_flag:
  assumes "hoist_child hs (For f) = (hs', c')"
  shows "\<exists>f'. c' = For f' \<and> source f' = source f \<and> for_fragment_flag f' = for_fragment_flag f"
proof (cases f)
  case (ForNode s v k i cs)
  with assms obtain cs' where cs': "hoist_list hs cs = (hs', cs')" and c': "c' = For (ForNode s v k i cs')"
    by (auto split: prod.splits)
  show ?thesis
    using hoist_list_keyed [OF cs'] ForNode c' by (simp add: for_fragment_flag_def)
qed

text \<open>C16: static hoisting of a component's children leaves the slots that
  \<open>collect_slots\<close> finds unchanged: slot templates carry a directive and are kept
  with their props, and a hoisted child counts as non-slot content as the static
  element did.\<close>

theorem hoist_preserves_slots:
  assumes "hoist_list hs (children el) = (hs', cs')"
  shows "collect_slots (set_children el cs') = collect_slots el"
  using hoist_list_slots [OF assms]
  by (simp add: collect_slots_def template_slots_def has_non_slot_children_list set_children_def)

section \<open>Witnesses\<close>

lemma ex_hoist_for_result:
  "hoist_child [] (For ex_hoist_for) =
     ([ex_static_p], For (ForNode (simple_exp ''items'' False) (Some (simple_exp ''item'' True)) None None
        [Hoisted 0, Element (ElementNode ''li'' ElementTag
          [directive ''bind'' (Some (simple_exp ''key'' True)) (Some (simple_exp ''item.id'' False))] [])]))"
  by (simp add: ex_hoist_for_def ex_static_p_def hoistable_def directive_def)

theorem hoist_preserves_fragment_flag_witness:
  "hoist_child [] (For ex_hoist_for) =
     ([ex_static_p], For (ForNode (simple_exp ''items'' False) (Some (simple_exp ''item'' True)) None None
        [Hoisted 0, Element (ElementNode ''li'' ElementTag
          [directive ''bind'' (Some (simple_exp ''key'' True)) (Some (simple_exp ''item.id'' False))] [])])) \<and>
   for_fragment_flag ex_hoist_for = 128 \<and>
   (\<exists>f'. for_fragment_flag f' = 128 \<and> source f' = simple_exp ''items'' False \<and>
      snd (hoist_child [] (For ex_hoist_for)) = For f')"
proof -
  have fl: "for_fragment_flag ex_hoist_for = 128"
    by (simp add: ex_hoist_for_def ex_static_p_def for_fragment_flag_def fragment_flag_of_def
        children_have_key_def get_element_key_def simple_exp_def directive_def is_ascii_digit_def)
  obtain f' where "snd (hoist_child [] (For ex_hoist_for)) = For f'" and "source f' = source ex_hoist_for"
    and "for_fragment_flag f' = for_fragment_flag ex_hoist_for"
    using hoist_preserves_fragment_flag [OF ex_hoist_for_result] ex_hoist_for_result by auto
  then show ?thesis using ex_hoist_for_result fl by (auto simp add: ex_hoist_for_def)
qed

theorem hoist_preserves_slots_witness:
  "hoist_list [] (children ex_comp_static) = ([ex_static_p], [slot_template ''header'' [Text ''H''], Hoisted 0]) \<and>
   collect_slots (set_children ex_comp_static [slot_template ''header'' [Text ''H''], Hoisted 0]) =
     collect_slots ex_comp_static \<and>
   map slot_name (collect_slots ex_comp_static) = [''header'', ''default'']"
proof -
  have h: "hoist_list [] (children ex_comp_static) = ([ex_static_p], [slot_template ''header'' [Text ''H''], Hoisted 0])"
    by (simp add: ex_comp_static_def slot_template_def ex_static_p_def hoistable_def directive_def)
  have n: "map slot_name (collect_slots ex_comp_static) = [''header'', ''default'']"
    by (simp add: ex_comp_static_def slot_template_def ex_static_p_def directive_def simple_exp_def
        collect_slots_def template_slots_def child_slots_def prop_slots_def get_slot_name_def
        has_non_slot_children_def has_v_slot_def is_slot_directive_def)
  show ?thesis using h n hoist_preserves_slots [OF h] by simp
qed

end
