(* ===== verification/Script.thy ===== *)
theory Script
  imports CodegenContext
begin

text \<open>
  The script-setup entry points of \<open>src/crates/vize_compiler_sfc/src/script.rs\<close>:
  \<open>analyze_script_setup\<close> and \<open>extract_macros\<close> each build a fresh
  \<open>ScriptCompileContext\<close> on the script text, run one analysis on it and return one of
  its fields. The context and its analyses live in modules that are not among the
  sources; they enter as a record of functions, \<open>new\<close> building the context and
  each \<open>&mut self\<close> method returning the updated one. Both functions are opaque
  over that interface, so the theory holds their definitions and no property: what
  they return is whatever the external analyses compute.
\<close>

record ('ctx, 'macros) script_compile_context =
  scc_new :: "string \<Rightarrow> 'ctx"
  scc_analyze :: "'ctx \<Rightarrow> 'ctx"
  scc_extract_all_macros :: "'ctx \<Rightarrow> 'ctx"
  scc_bindings :: "'ctx \<Rightarrow> binding_metadata"
  scc_macros :: "'ctx \<Rightarrow> 'macros"

definition analyze_script_setup :: "('ctx, 'm) script_compile_context \<Rightarrow> string \<Rightarrow> binding_metadata" where
  "analyze_script_setup S script =
     (let ctx = scc_new S script;
          ctx = scc_analyze S ctx
      in scc_bindings S ctx)"

definition extract_macros :: "('ctx, 'm) script_compile_context \<Rightarrow> string \<Rightarrow> 'm" where
  "extract_macros S script =
     (let ctx = scc_new S script;
          ctx = scc_extract_all_macros S ctx
      in scc_macros S ctx)"

end
