(* ===== verification/Spec2Isabelle.thy ===== *)
theory Spec2Isabelle
  imports VFor VSlot TypeScript TransformDriver Hoist Script
begin

text \<open>
  \<^bold>\<open>A verification library for the template compiler of vue-compiler-rs.\<close>

  \<^emph>\<open>The program.\<close> The compiler turns a parsed template AST into render-function
  source text. A transform pass walks the AST with a transform context (helpers in use,
  slot-parameter scope) and applies directive plugins; a codegen pass writes the
  decorated AST into a buffer held by the codegen context (indentation, helper aliases,
  helpers in use, cache indices of \<open>v-once\<close>/\<open>v-memo\<close> sites, slot parameters). The
  sources of this repository are a part of that pipeline: the codegen context
  (\<open>vue_compiler_core/src/codegen/context.rs\<close>), the \<open>v-for\<close> generator
  (\<open>codegen/v_for.rs\<close>), the \<open>v-slot\<close> transform (\<open>transforms/v_slot.rs\<close>) and the
  TypeScript-stripping step of the SFC compiler
  (\<open>vize_compiler_sfc/src/compile_script/typescript.rs\<close>); the remaining files only
  declare and re-export modules. The transform driver, its context and static hoisting
  are not among the sources; they are modelled from sections 4.1 to 4.3 of the
  specification, so that the slot transform and the \<open>v-for\<close> generator are verified
  in the pipeline that calls them.

  \<^emph>\<open>Theories.\<close>
  \<^item> \<open>Prelude\<close>: \<open>u32\<close>/\<open>usize\<close> as 32/64-bit words; the Rust string operations
    the code calls (\<open>is_ascii_digit\<close>, \<open>str::replace\<close> with a character pattern,
    \<open>to_string\<close> of an unsigned integer as \<open>dec_string\<close> with its inverse
    \<open>parse_dec\<close>); shared list and word lemmas.
  \<^item> \<open>Ast\<close>: expressions, props, elements and the synthesized \<open>v-if\<close>/\<open>v-for\<close>
    nodes as one mutual datatype (the AST module is not among the sources and follows
    section 3 of the specification).
  \<^item> \<open>CodegenContext\<close>: the struct \<open>CodegenContext\<close> as a record and each method
    (\<open>new\<close>, \<open>add_slot_params\<close>, \<open>remove_slot_params\<close>, \<open>is_slot_param\<close>,
    \<open>next_cache_index\<close>, \<open>push\<close>, \<open>push_line\<close>, \<open>newline\<close>, \<open>indent\<close>,
    \<open>deindent\<close>, \<open>push_pure\<close>, \<open>helper\<close>, \<open>use_helper\<close>,
    \<open>is_component_in_bindings\<close>) as a function returning the new context. Lemmas:
    the cache indices of consecutive sites are \<open>0, 1, 2, \<dots>\<close> for up to \<open>2^64\<close>
    sites and wrap after that; \<open>indent\<close> then \<open>deindent\<close> is the identity exactly
    below the largest \<open>u32\<close> level, where the increment wraps; the slot-parameter set
    refines an abstract multiset scope exactly when an inner scope does not shadow an
    outer name. The \<open>&mut self\<close> methods form an operation datatype \<open>ctx_op\<close> with
    a step function; every context reachable from \<open>new\<close> by them keeps the
    configuration of its options, the default aliases and the pure flag off
    (\<open>reachable_ctx_wf\<close>), so \<open>push_pure\<close> writes nothing on them. The fields are
    \<open>pub(super)\<close>: writes by other codegen modules of the crate are outside this.
  \<^item> \<open>CodegenIface\<close>: the generators called by the modelled code but defined outside
    the sources (expression, children, node, v-show) as a record of functions with a
    contract \<open>iface_ok\<close> (append-only, indentation restored, helpers kept); the
    relations \<open>grows\<close> and \<open>extends\<close> with introduction rules that carry the growth
    proofs; \<open>example_iface\<close>, an instance built after the specification, used by
    the witnesses.
  \<^item> \<open>VFor\<close>: \<open>is_numeric_source\<close>, \<open>get_element_key\<close>, the fragment flag and its
    name, \<open>generate_for\<close> and \<open>generate_for_item\<close>. The body of \<open>generate_for\<close> is
    four consecutive statement groups (\<open>for_prelude\<close>, \<open>for_params\<close>, \<open>for_body\<close>,
    \<open>for_close\<close>) and the block branch of \<open>generate_for_item\<close> four more
    (\<open>block_item_head\<close>, \<open>block_item_props\<close>, \<open>block_item_children\<close>,
    \<open>block_item_close\<close>); each group is one definition and the function runs them in
    the code's order. Lemmas: Stable exactly for digit-literal sources, Keyed for a
    keyed child; the shape of the emitted
    fragment block; stable items are not block-wrapped, other items are; component
    items are \<open>createBlock(_component_<tag>\<close> blocks with a dash-free name, template
    items \<open>Fragment\<close> blocks with flag 64; the TEXT flag of an item with
    interpolations; the helpers recorded; the indentation restored given two levels of
    room; a key that is not simple by the dot test is written on its own line.
  \<^item> \<open>TransformContext\<close> (spec-modelled): the transform context as a record of
    the helpers in use, the slot-parameter scope as a stack (\<open>enter\<close> pushes,
    \<open>leave\<close> pops as many names) and the ordered diagnostics; leaving undoes entering
    exactly, also under shadowing.
  \<^item> \<open>VSlot\<close>: \<open>has_v_slot\<close>, \<open>get_slot_name\<close>, \<open>get_slot_props_string\<close>,
    \<open>is_dynamic_slot\<close>, \<open>transform_slot_outlet\<close>, \<open>collect_slots\<close> (its two loops
    as \<open>template_slots\<close> and \<open>has_non_slot_children\<close>), \<open>has_dynamic_slots\<close>. Lemmas:
    dynamic names are the raw argument source; the implicit default slot is present
    exactly when declared or when there is non-slot content; \<open>has_dynamic_slots\<close>
    agrees with \<open>collect_slots\<close>; the outlet transform registers \<open>renderSlot\<close> before
    it checks the tag. The module's three unit tests are boolean definitions over a
    hand-written AST standing for the parser's output (the parser is not among the
    sources), and hold.
  \<^item> \<open>TypeScript\<close>: \<open>transform_typescript_to_js\<close> with the OXC parser, semantic
    analysis, transformer and printer as an interface record. Lemmas: any stage error
    returns the input verbatim; on success the result is the printed output of the
    program the transformer returned, with tabs replaced, and contains no tab.
  \<^item> \<open>TransformDriver\<close> (spec-modelled, section 4.2): the directive vocabulary, the
    order in which an element's directives run (at most one structural directive,
    \<open>v-for\<close> before \<open>v-if\<close>, then the others in source order), the effect protocol
    (\<open>NoOp\<close>, \<open>Replace\<close>, \<open>Remove\<close>, \<open>DeferExit\<close> with exits run in reverse order)
    and the depth-first traversal \<open>transform_node\<close>, which enters a list's aliases
    for its children and leaves them after. Plugins are a table from directive kind to
    a function returning the new context and an effect; \<open>pipeline_plugins\<close> runs
    the modelled \<open>transform_slot_outlet\<close> for \<open>v-slot\<close> and example plugins for
    \<open>v-for\<close>, \<open>v-if\<close>, \<open>v-else\<close> (not the repository's, which are not among the
    sources). Lemmas: the traversal returns for enough fuel;
    with plugins that only extend the context (\<open>plugin_ok\<close>) the scope is restored,
    helpers only grow and diagnostics are only appended; unknown directives are
    reported and kept; a removed node is dropped; with enough fuel and the pipeline's
    plugins, a tree with a \<open>v-slot\<close> directive and no \<open>v-else\<close> reaches a slot
    directive, also when a structural directive on its element replaces the element
    first (\<open>slot_directives_processed\<close>): \<open>renderSlot\<close>, absent before, is recorded.
  \<^item> \<open>Script\<close>: \<open>analyze_script_setup\<close> and \<open>extract_macros\<close> of
    \<open>vize_compiler_sfc/src/script.rs\<close> over \<open>ScriptCompileContext\<close> as an interface
    record (its code is not among the sources); definitions only.
  \<^item> \<open>Hoist\<close> (spec-modelled, section 4.3): static subtrees and the hoisting pass,
    which replaces each maximal hoistable element by a numbered reference \<open>Hoisted i\<close>.
    Lemmas: substituting the constants back gives the original tree; references in
    document order are the new constants' indices; no hoistable element is left;
    the fragment flag of a list and the slots \<open>collect_slots\<close> finds are unchanged.
  \<^item> This theory: two computations with \<open>example_iface\<close> that document findings:
    the two renderings of a \<open>template\<close> item (a \<open>Fragment\<close> block in a dynamic
    list, a \<open>createElementVNode("template")\<close> element in a stable one, where the
    stable branch ignores the tag type), and a list whose aliases \<open>generate_for\<close>
    prints as parameters but never adds to the codegen context's slot-parameter scope,
    so that an expression generator following section 4.7 prefixes them with
    \<open>_ctx.\<close> in the list body.

  \<^emph>\<open>Modelling choices.\<close> Mutation is state passing: every method takes the
  context and returns the updated one; \<open>ctx.push(ctx.helper(h))\<close> reads the alias
  from the context before the push, as the Rust does. Strings are \<open>char list\<close>s.
  \<open>indent_level\<close> and \<open>cache_index\<close> keep their Rust widths; their unchecked
  increments wrap as in a release build (a debug build panics), and the theorems that
  depend on it state the bound (\<open>2^64\<close> sites, two indentation levels of room). The
  slot-parameter set is a HOL set, as the \<open>HashSet\<close> is. No loop of the source code
  needs fuel: every loop runs over a finite list and is structural recursion or a
  list combinator. The driver's traversal does: a plugin may replace a node by any
  node, which is then transformed again, so \<open>transform_node\<close> takes fuel and returns
  \<open>None\<close> when it runs out. Fuel larger than \<open>child_weight\<close> of the root is enough
  (\<open>transform_terminates\<close>) for every plugin table whose replacements are lighter
  than the element they replace (\<open>replace_ok\<close>), as the example pipeline's are; each
  call on a child or a replacement spends one unit and the weight of a child is below
  its parent's.

  \<^emph>\<open>Not modelled.\<close> The module files \<open>transforms.rs\<close> and \<open>generators.rs\<close>
  only declare and re-export modules, as do lines 1 to 48 of \<open>script.rs\<close>; the script
  compiler they name (\<open>ScriptCompileContext\<close>, the macro analyses) is an external
  collaborator and enters only through its interface. The directive plugins other than \<open>v-slot\<close>
  (\<open>v-if\<close>, \<open>v-bind\<close>, \<open>v-on\<close>, \<open>v-model\<close>, \<open>v-once\<close>, \<open>v-memo\<close>, text and
  element transforms) have no code in this repository; the driver is proved for any
  plugin table meeting its contract instead, and the example plugins only stand in
  for them in the witnesses. The vapor backend and the DOM-specific transforms are
  out of the specification's scope.
\<close>

section \<open>Computations behind findings\<close>

text \<open>\<open><li v-for="item in items">{{ item.name }}</li>\<close> after the transform, the
  interpolation not marked static.\<close>

definition ex_alias_for :: for_node where
  "ex_alias_for = ForNode (simple_exp ''items'' False) (Some (simple_exp ''item'' True)) None None
       [Element (ElementNode ''li'' ElementTag [] [Interpolation (simple_exp ''item.name'' False)])]"

text \<open>The two branches of \<open>generate_for_item\<close> on one \<open>template\<close> item: a
  \<open>Fragment\<close> block in a dynamic list, a \<open>createElementVNode("template", ...)\<close>
  element in a stable one, whose branch does not look at the tag type.\<close>

lemma template_item_stable_vs_dynamic:
  "code (generate_for_item example_iface (codegen_context_new default_codegen_options) (Element ex_tpl) True) =
     ''_createElementVNode(\"template\", null, [_createElementVNode(\"span\")])'' \<and>
   code (generate_for_item example_iface (codegen_context_new default_codegen_options) (Element ex_tpl) False) =
     ''(_openBlock(), _createElementBlock(_Fragment, null, ['' @ [CHR 0x0A] @ ''  _createElementVNode(\"span\")'' @
     [CHR 0x0A] @ ''], 64 /* STABLE_FRAGMENT */))''"
proof
  show "code (generate_for_item example_iface (codegen_context_new default_codegen_options) (Element ex_tpl) True) =
     ''_createElementVNode(\"template\", null, [_createElementVNode(\"span\")])''"
    by (simp add: ex_tpl_def ex_span_def generate_for_item_def example_iface_def example_has_vshow_def
        vshow_open_def gen_stable_item_def example_children_def Let_def get_element_key_def)
  show "code (generate_for_item example_iface (codegen_context_new default_codegen_options) (Element ex_tpl) False) =
     ''(_openBlock(), _createElementBlock(_Fragment, null, ['' @ [CHR 0x0A] @ ''  _createElementVNode(\"span\")'' @
     [CHR 0x0A] @ ''], 64 /* STABLE_FRAGMENT */))''"
    by (simp add: ex_tpl_def ex_span_def generate_for_item_def example_iface_def example_has_vshow_def
        vshow_open_def gen_block_item_def block_item_head_def block_item_props_def block_item_children_def
        block_item_close_def Let_def get_element_key_def)
qed

text \<open>The consequence on the example: the arrow function's parameter is \<open>item\<close>, and
  the body reads \<open>_ctx.item.name\<close>.\<close>

lemma alias_prefixed_in_body:
  "code (generate_for example_iface (codegen_context_new default_codegen_options) ex_alias_for) =
     ''(_openBlock(true), _createElementBlock(_Fragment, null, _renderList(_ctx.items, (item) => {'' @ [CHR 0x0A] @
     ''  return (_openBlock(), _createElementBlock(\"li\", null, [_toDisplayString(_ctx.item.name)], 1 /* TEXT */))'' @ [CHR 0x0A] @
     ''}), 256 /* UNKEYED_FRAGMENT */))''"
  by (simp add: ex_alias_for_def generate_for_def for_prelude_def for_params_def
      for_body_def for_close_def Let_def simple_exp_def is_ascii_digit_def fragment_flag_of_def
      children_have_key_def get_element_key_def generate_for_item_def example_iface_def
      example_has_vshow_def vshow_open_def gen_block_item_def block_item_head_def block_item_props_def
      block_item_children_def block_item_close_def example_children_def dec_string_big is_slot_param_def)

end
